theory Spec2Isabelle
  imports Complex_Main "HOL-Library.Char_ord" "HOL-Library.List_Lexorder"
begin

section \<open>Numbers, failures and loops that may fail\<close>

text \<open>
  The C++ type \<open>double\<close> is idealised as the type of real numbers: the properties
  below are about which operands the code combines, in which order, not about rounding.
  The counters \<open>unsigned int\<close> and the period count of the model time are natural
  numbers; a vector with as many maps as \<open>unsigned int\<close> has values cannot be
  allocated, so the wrap-around of \<open>mNumPoints + 1\<close> is not reached.
\<close>

type_synonym double = real

text \<open>
  What C++ leaves undefined or reports by an exception is a value of \<open>error\<close>:
  an index beyond a vector's size, a call through the null pointer that
  \<open>std::map::operator[]\<close> inserts for a missing key, and the refusal of a point set
  to hold two points of one x.
\<close>

datatype error = IndexOutOfRange | NullCurve | DuplicateXError

definition ebind :: "error + 'a \<Rightarrow> ('a \<Rightarrow> error + 'b) \<Rightarrow> error + 'b" where
  "ebind m f = (case m of Inl e \<Rightarrow> Inl e | Inr x \<Rightarrow> f x)"

text \<open>A \<open>for\<close> loop over a sequence whose body may fail: the first failure ends it.\<close>

fun efold :: "('a \<Rightarrow> 'b \<Rightarrow> error + 'b) \<Rightarrow> 'a list \<Rightarrow> 'b \<Rightarrow> error + 'b" where
  "efold f [] s = Inr s"
| "efold f (x # xs) s = (case f x s of Inl e \<Rightarrow> Inl e | Inr s' \<Rightarrow> efold f xs s')"

text \<open>\<open>std::vector::resize\<close>: cut to \<open>n\<close> elements, or fill up with default values.\<close>

definition resize :: "nat \<Rightarrow> 'a \<Rightarrow> 'a list \<Rightarrow> 'a list" where
  "resize n d xs = take n xs @ replicate (n - length xs) d"

text \<open>
  \<open>util::toString\<close> on an unsigned counter: its decimal digits.
\<close>

definition digit :: "nat \<Rightarrow> char" where
  "digit d = ''0123456789'' ! d"

function toString :: "nat \<Rightarrow> string" where
  "toString n = (if n < 10 then [digit n] else toString (n div 10) @ [digit (n mod 10)])"
  by pat_completeness auto
termination
  by (relation "measure (\<lambda>n. n)") auto

declare toString.simps [simp del]

section \<open>Curves and region maps\<close>

text \<open>
  A \<open>std::map\<close> keyed by region name is the list of its entries in iteration order,
  which is the ascending order of the keys. \<open>map_of\<close> is \<open>find\<close>, and
  \<open>map_set\<close> is an assignment through \<open>operator[]\<close>: an existing key keeps its
  place, a new key enters at the place its order gives it.
\<close>

type_synonym 'v strmap = "(string \<times> 'v) list"

fun map_set :: "string \<Rightarrow> 'v \<Rightarrow> 'v strmap \<Rightarrow> 'v strmap" where
  "map_set k v [] = [(k, v)]"
| "map_set k v ((k', v') # m) =
     (if k = k' then (k, v) # m
      else if k < k' then (k, v) # (k', v') # m
      else (k', v') # map_set k v m)"

type_synonym XYDataPoint = "double \<times> double"

text \<open>
  Modelled from the spec: the classes \<open>Curve\<close>, \<open>PointSetCurve\<close> and
  \<open>ExplicitPointSet\<close> are not part of the sources at hand. By the spec a curve is an
  ``ordered set of (x, y) sample points (x unique, sorted ascending)'' with ``a human-readable
  title, and an optional integer label''.
\<close>

record Curve =
  points :: "XYDataPoint list"
  title :: string
  numericalLabel :: "int option"

text \<open>
  Modelled from the spec: \<open>addPoint\<close> ``inserts a sample, maintaining sort order; fails
  with DuplicateXError if x already exists''. The failure ends the computation that adds the
  point, as an exception does.
\<close>

fun addPoint :: "XYDataPoint \<Rightarrow> XYDataPoint list \<Rightarrow> error + XYDataPoint list" where
  "addPoint p [] = Inr [p]"
| "addPoint p (q # qs) =
     (if fst p = fst q then Inl DuplicateXError
      else if fst p < fst q then Inr (p # q # qs)
      else (case addPoint p qs of Inl e \<Rightarrow> Inl e | Inr qs' \<Rightarrow> Inr (q # qs')))"

text \<open>
  Modelled from the spec: a new curve over a point set holds the points of the set; its
  title is empty and it has no label until \<open>setTitle\<close> and \<open>setNumericalLabel\<close>
  give them.
\<close>

definition PointSetCurve :: "XYDataPoint list \<Rightarrow> Curve" where
  "PointSetCurve currPoints = \<lparr>points = currPoints, title = [], numericalLabel = None\<rparr>"

text \<open>
  The numerical methods of a curve (interpolation, the integral between two bounds and
  the discounted value at a rate) are parameters of the model, as is the largest finite
  \<open>double\<close>, the macro \<open>DBL_MAX\<close>.
\<close>

record CurveOps =
  getY :: "Curve \<Rightarrow> double \<Rightarrow> double"
  getIntegral :: "Curve \<Rightarrow> double \<Rightarrow> double \<Rightarrow> double"
  getDiscountedValue :: "Curve \<Rightarrow> double \<Rightarrow> double \<Rightarrow> double \<Rightarrow> double"
  DBL_MAX :: double

type_synonym RegionCurves = "Curve strmap"

section \<open>The scenario, the configuration and the calculator\<close>

record Modeltime =
  getmaxper :: nat
  getper_to_yr :: "nat \<Rightarrow> int"
  getEndYear :: int

record GHGPolicy =
  policyGas :: string
  policyRegion :: string
  policyTaxes :: "double list"

datatype run_scope = RUN_ALL_PERIODS | RUN_PERIOD int

text \<open>
  The scenario runner, its scenario and the marketplace are outside the sources at hand:
  they are a state of any type \<open>'s\<close> and the operations the calculator calls on it.
  The curves a scenario hands out are never null, and its model time is the same in every
  state.
\<close>

record 's Scenario =
  getPrice :: "'s \<Rightarrow> string \<Rightarrow> string \<Rightarrow> int \<Rightarrow> double"
  NO_MARKET_PRICE :: double
  getEmissionsQuantityCurves :: "'s \<Rightarrow> string \<Rightarrow> RegionCurves"
  getEmissionsPriceCurves :: "'s \<Rightarrow> string \<Rightarrow> RegionCurves"
  setTax :: "GHGPolicy \<Rightarrow> 's \<Rightarrow> 's"
  run :: "run_scope \<Rightarrow> bool \<Rightarrow> string \<Rightarrow> 's \<Rightarrow> bool \<times> 's"
  getModeltime :: Modeltime

text \<open>
  What the calculator does to the world outside, in the order it does it: a tax handed to
  the scenario, a run (with the flag it returned) and a line of the main log.
\<close>

datatype event =
  SetTax GHGPolicy
| Run run_scope bool string bool
| Log string

text \<open>
  The configuration, a singleton in the code, is the parameter \<open>conf\<close> of the
  constructor and of \<open>createRegionalCostCurves\<close>. A look-up gives the default when the
  key is not set.
\<close>

record Configuration =
  stringParams :: "string \<rightharpoonup> string"
  intParams :: "string \<rightharpoonup> int"
  doubleParams :: "string \<rightharpoonup> double"

definition getString :: "Configuration \<Rightarrow> string \<Rightarrow> string \<Rightarrow> string" where
  "getString conf key dflt = (case stringParams conf key of Some v \<Rightarrow> v | None \<Rightarrow> dflt)"

definition getInt :: "Configuration \<Rightarrow> string \<Rightarrow> int \<Rightarrow> int" where
  "getInt conf key dflt = (case intParams conf key of Some v \<Rightarrow> v | None \<Rightarrow> dflt)"

definition getDouble :: "Configuration \<Rightarrow> string \<Rightarrow> double \<Rightarrow> double" where
  "getDouble conf key dflt = (case doubleParams conf key of Some v \<Rightarrow> v | None \<Rightarrow> dflt)"

record calculator =
  mGHGName :: string
  mNumPoints :: nat
  mRanCosts :: bool
  mGlobalCost :: double
  mGlobalDiscountedCost :: double
  mEmissionsQCurves :: "RegionCurves list"
  mEmissionsTCurves :: "RegionCurves list"
  mPeriodCostCurves :: "RegionCurves list"
  mRegionalCostCurves :: RegionCurves
  mRegionalCosts :: "double strmap"
  mRegionalDiscountedCosts :: "double strmap"

text \<open>The constructor. A negative number of points is not a count and is read as 0.\<close>

definition TotalPolicyCostCalculator :: "Configuration \<Rightarrow> calculator" where
  "TotalPolicyCostCalculator conf =
     \<lparr>mGHGName = getString conf ''AbatedGasForCostCurves'' ''CO2'',
      mNumPoints = nat (getInt conf ''numPointsForCO2CostCurve'' 5),
      mRanCosts = False,
      mGlobalCost = 0,
      mGlobalDiscountedCost = 0,
      mEmissionsQCurves = [],
      mEmissionsTCurves = [],
      mPeriodCostCurves = [],
      mRegionalCostCurves = [],
      mRegionalCosts = [],
      mRegionalDiscountedCosts = []\<rparr>"

subsection \<open>The trials\<close>

text \<open>The vector \<open>currTaxes\<close> of one region: the tax of each period's year, scaled.\<close>

definition currTaxes :: "CurveOps \<Rightarrow> Modeltime \<Rightarrow> Curve \<Rightarrow> double \<Rightarrow> double list" where
  "currTaxes ops modeltime crv fraction =
     map (\<lambda>per. getY ops crv (of_int (getper_to_yr modeltime per)) * fraction)
       [0..<getmaxper modeltime]"

definition regionTax :: "CurveOps \<Rightarrow> Modeltime \<Rightarrow> string \<Rightarrow> double \<Rightarrow> string \<times> Curve \<Rightarrow> GHGPolicy" where
  "regionTax ops modeltime gas fraction rIter =
     \<lparr>policyGas = gas, policyRegion = fst rIter,
      policyTaxes = currTaxes ops modeltime (snd rIter) fraction\<rparr>"

text \<open>The loop over the regions of the tax curves of the original run.\<close>

fun setRegionTaxes ::
  "'s Scenario \<Rightarrow> CurveOps \<Rightarrow> string \<Rightarrow> double \<Rightarrow> RegionCurves \<Rightarrow> 's \<times> event list \<Rightarrow> 's \<times> event list" where
  "setRegionTaxes F ops gas fraction [] st = st"
| "setRegionTaxes F ops gas fraction (rIter # regions) st =
     (let tax = regionTax ops (getModeltime F) gas fraction rIter
      in setRegionTaxes F ops gas fraction regions (setTax F tax (fst st), snd st @ [SetTax tax]))"

definition startMessage :: "nat \<Rightarrow> string" where
  "startMessage currPoint = ''Starting cost curve point run number '' @ toString currPoint @ ''.''"

text \<open>The body of the loop of \<open>runTrials\<close>, for the point \<open>currPoint\<close>.\<close>

definition runTrial ::
  "'s Scenario \<Rightarrow> CurveOps \<Rightarrow> nat \<Rightarrow> bool \<times> calculator \<times> 's \<times> event list
     \<Rightarrow> error + (bool \<times> calculator \<times> 's \<times> event list)" where
  "runTrial F ops currPoint st =
     (case st of (success, c, s, tr) \<Rightarrow>
        let fraction = real currPoint / real (mNumPoints c) in
        if length (mEmissionsTCurves c) \<le> mNumPoints c then Inl IndexOutOfRange
        else
          let (s1, tr1) = setRegionTaxes F ops (mGHGName c) fraction
                            (mEmissionsTCurves c ! mNumPoints c) (s, tr);
              tr2 = tr1 @ [Log (startMessage currPoint)];
              (ok, s2) = run F RUN_ALL_PERIODS True (toString currPoint) s1;
              tr3 = tr2 @ [Run RUN_ALL_PERIODS True (toString currPoint) ok]
          in if length (mEmissionsQCurves c) \<le> currPoint then Inl IndexOutOfRange
             else Inr (success \<and> ok,
                       c\<lparr>mEmissionsQCurves :=
                            (mEmissionsQCurves c)[currPoint := getEmissionsQuantityCurves F s2 (mGHGName c)],
                         mEmissionsTCurves :=
                            (mEmissionsTCurves c)[currPoint := getEmissionsPriceCurves F s2 (mGHGName c)]\<rparr>,
                       s2, tr3))"

definition runTrials ::
  "'s Scenario \<Rightarrow> CurveOps \<Rightarrow> calculator \<Rightarrow> 's \<Rightarrow> error + (bool \<times> calculator \<times> 's \<times> event list)" where
  "runTrials F ops c s = efold (runTrial F ops) [0..<mNumPoints c] (True, c, s, [])"

text \<open>
  The state of the scenario after the first trials of a sweep over the tax curves
  \<open>base\<close>, and the flag that the run of trial \<open>t\<close> returns.
\<close>

primrec sweepState :: "'s Scenario \<Rightarrow> CurveOps \<Rightarrow> string \<Rightarrow> nat \<Rightarrow> RegionCurves \<Rightarrow> 's \<Rightarrow> nat \<Rightarrow> 's" where
  "sweepState F ops gas N base s 0 = s"
| "sweepState F ops gas N base s (Suc t) =
     snd (run F RUN_ALL_PERIODS True (toString t)
            (fst (setRegionTaxes F ops gas (real t / real N) base (sweepState F ops gas N base s t, []))))"

definition trialFlag :: "'s Scenario \<Rightarrow> CurveOps \<Rightarrow> string \<Rightarrow> nat \<Rightarrow> RegionCurves \<Rightarrow> 's \<Rightarrow> nat \<Rightarrow> bool" where
  "trialFlag F ops gas N base s t =
     fst (run F RUN_ALL_PERIODS True (toString t)
            (fst (setRegionTaxes F ops gas (real t / real N) base (sweepState F ops gas N base s t, []))))"

subsection \<open>The cost curves by period\<close>

text \<open>
  A curve found in a region map and called: \<open>operator[]\<close> gives the null pointer for a
  region that is not in the map.
\<close>

definition curveAt :: "RegionCurves list \<Rightarrow> nat \<Rightarrow> string \<Rightarrow> error + Curve" where
  "curveAt curves i region =
     (if length curves \<le> i then Inl IndexOutOfRange
      else case map_of (curves ! i) region of None \<Rightarrow> Inl NullCurve | Some crv \<Rightarrow> Inr crv)"

text \<open>The point of one trial: the reduction against the curve of the iterator, and the tax.\<close>

definition trialPoint :: "CurveOps \<Rightarrow> calculator \<Rightarrow> int \<Rightarrow> string \<times> Curve \<Rightarrow> nat \<Rightarrow> error + XYDataPoint" where
  "trialPoint ops c year rIter trial =
     ebind (curveAt (mEmissionsQCurves c) trial (fst rIter)) (\<lambda>q.
     ebind (curveAt (mEmissionsTCurves c) trial (fst rIter)) (\<lambda>t.
       Inr (getY ops (snd rIter) (of_int year) - getY ops q (of_int year),
            getY ops t (of_int year))))"

definition trialPoints :: "CurveOps \<Rightarrow> calculator \<Rightarrow> int \<Rightarrow> string \<times> Curve \<Rightarrow> error + XYDataPoint list" where
  "trialPoints ops c year rIter =
     efold (\<lambda>trial currPoints. ebind (trialPoint ops c year rIter trial) (\<lambda>currPoint. addPoint currPoint currPoints))
       [0..<mNumPoints c + 1] []"

definition perCostCurve :: "CurveOps \<Rightarrow> calculator \<Rightarrow> int \<Rightarrow> nat \<Rightarrow> string \<times> Curve \<Rightarrow> error + Curve" where
  "perCostCurve ops c year per rIter =
     ebind (trialPoints ops c year rIter) (\<lambda>currPoints.
       Inr ((PointSetCurve currPoints)\<lparr>title := fst rIter @ '' period cost curve'',
                                       numericalLabel := Some (int per)\<rparr>))"

text \<open>The loop over the regions of trial 0, for one period, on the vector of period maps.\<close>

definition periodRegions :: "CurveOps \<Rightarrow> calculator \<Rightarrow> Modeltime \<Rightarrow> nat \<Rightarrow> RegionCurves list \<Rightarrow> error + RegionCurves list" where
  "periodRegions ops c modeltime per P =
     (if mEmissionsQCurves c = [] then Inl IndexOutOfRange
      else efold (\<lambda>rIter P. ebind (perCostCurve ops c (getper_to_yr modeltime per) per rIter) (\<lambda>crv.
                    if length P \<le> per then Inl IndexOutOfRange
                    else Inr (P[per := map_set (fst rIter) crv (P ! per)])))
             (mEmissionsQCurves c ! 0) P)"

definition createCostCurvesByPeriod :: "'s Scenario \<Rightarrow> CurveOps \<Rightarrow> calculator \<Rightarrow> error + calculator" where
  "createCostCurvesByPeriod F ops c =
     (let modeltime = getModeltime F;
          maxPeriod = getmaxper modeltime
      in ebind (efold (periodRegions ops c modeltime) [0..<maxPeriod]
                  (resize maxPeriod [] (mPeriodCostCurves c)))
           (\<lambda>P. Inr (c\<lparr>mPeriodCostCurves := P\<rparr>)))"

subsection \<open>The regional cost curves and the costs\<close>

text \<open>The loop over the periods, for one region: a point at each year, of the period's cost.\<close>

definition costPoints :: "CurveOps \<Rightarrow> Modeltime \<Rightarrow> RegionCurves list \<Rightarrow> string \<Rightarrow> error + XYDataPoint list" where
  "costPoints ops modeltime P region =
     efold (\<lambda>per pts.
        ebind (curveAt P per region) (\<lambda>crv.
          addPoint (of_int (getper_to_yr modeltime per), getIntegral ops crv 0 (DBL_MAX ops)) pts))
       [0..<getmaxper modeltime] []"

text \<open>The body of the loop over the regions of the first period's map.\<close>

definition regionalCosts :: "'s Scenario \<Rightarrow> CurveOps \<Rightarrow> Configuration \<Rightarrow> string \<Rightarrow> calculator \<Rightarrow> error + calculator" where
  "regionalCosts F ops conf region c =
     (let discountRate = getDouble conf ''discountRate'' 0.05;
          startYear = getInt conf ''discount-start-year'' 2005;
          modeltime = getModeltime F
      in if region = ''global'' then Inr c
         else ebind (costPoints ops modeltime (mPeriodCostCurves c) region) (\<lambda>pts.
           let regCostCurve = (PointSetCurve pts)\<lparr>title := region\<rparr>;
               regionalCost = getIntegral ops regCostCurve (of_int startYear) (of_int (getEndYear modeltime));
               discountedRegionalCost =
                 getDiscountedValue ops regCostCurve (of_int startYear) (of_int (getEndYear modeltime)) discountRate
           in Inr (c\<lparr>mRegionalCostCurves := map_set region regCostCurve (mRegionalCostCurves c),
                     mRegionalCosts := map_set region regionalCost (mRegionalCosts c),
                     mRegionalDiscountedCosts := map_set region discountedRegionalCost (mRegionalDiscountedCosts c),
                     mGlobalCost := mGlobalCost c + regionalCost,
                     mGlobalDiscountedCost := mGlobalDiscountedCost c + discountedRegionalCost\<rparr>)))"

definition createRegionalCostCurves :: "'s Scenario \<Rightarrow> CurveOps \<Rightarrow> Configuration \<Rightarrow> calculator \<Rightarrow> error + calculator" where
  "createRegionalCostCurves F ops conf c =
     (if mPeriodCostCurves c = [] then Inl IndexOutOfRange
      else efold (regionalCosts F ops conf) (map fst (mPeriodCostCurves c ! 0)) c)"

subsection \<open>The entry point and the output\<close>

definition skipMessage :: string where
  "skipMessage = ''Skipping cost curve calculations for non-policy model run.''"

text \<open>
  The two vectors of trial curves are resized to the number of trials plus one, and the
  curves of the primary run, which the scenario holds, are stored at the last index.
\<close>

definition storePrimaryRun :: "'s Scenario \<Rightarrow> calculator \<Rightarrow> 's \<Rightarrow> calculator" where
  "storePrimaryRun F c s =
     (let c1 = c\<lparr>mEmissionsQCurves := resize (mNumPoints c + 1) [] (mEmissionsQCurves c),
                   mEmissionsTCurves := resize (mNumPoints c + 1) [] (mEmissionsTCurves c)\<rparr>
      in c1\<lparr>mEmissionsQCurves :=
                (mEmissionsQCurves c1)[mNumPoints c := getEmissionsQuantityCurves F s (mGHGName c)],
             mEmissionsTCurves :=
                (mEmissionsTCurves c1)[mNumPoints c := getEmissionsPriceCurves F s (mGHGName c)]\<rparr>)"

definition calculateAbatementCostCurve ::
  "'s Scenario \<Rightarrow> CurveOps \<Rightarrow> Configuration \<Rightarrow> calculator \<Rightarrow> 's
     \<Rightarrow> error + (bool \<times> calculator \<times> 's \<times> event list)" where
  "calculateAbatementCostCurve F ops conf c s =
     (if getPrice F s (mGHGName c) ''USA'' 1 = NO_MARKET_PRICE F
      then Inr (True, c, s, [Log skipMessage])
      else
        ebind (runTrials F ops (storePrimaryRun F c s) s) (\<lambda>(success, c3, s3, tr).
           ebind (createCostCurvesByPeriod F ops c3) (\<lambda>c4.
           ebind (createRegionalCostCurves F ops conf c4) (\<lambda>c5.
             Inr (success, c5\<lparr>mRanCosts := True\<rparr>, s3, tr)))))"

text \<open>
  The sinks of \<open>printOutput\<close>, in the order they are written: the XML file, the XML
  database when it is compiled in, and the database table. What is written comes from
  helpers outside the sources at hand; the XML string is the parameter \<open>xmlString\<close>.
\<close>

datatype sink =
  XMLFile string
| XMLDBAppend string string
| WriteToDB

definition printOutput :: "(calculator \<Rightarrow> string) \<Rightarrow> bool \<Rightarrow> calculator \<Rightarrow> sink list" where
  "printOutput xmlString useXMLDB c =
     (if \<not> mRanCosts c then []
      else [XMLFile (xmlString c)]
           @ (if useXMLDB then [XMLDBAppend (xmlString c) ''/scenario/world/region[last()]''] else [])
           @ [WriteToDB])"

section \<open>The emissions driver of an input\<close>

text \<open>
  \<open>IInput\<close> is an interface; the driver uses its name (through
  \<open>FunctionUtils::getInput\<close>) and its physical demand per period.
\<close>

record IInput =
  getName :: string
  getPhysicalDemand :: "int \<Rightarrow> double"

record InputDriver =
  mInputName :: string

text \<open>
  \<open>FunctionUtils::getInput\<close> is not part of the sources at hand; it is the parameter
  \<open>getInput\<close>, whose result \<open>None\<close> is the null pointer.
\<close>

definition calcEmissionsDriver ::
  "(IInput list \<Rightarrow> string \<Rightarrow> IInput option) \<Rightarrow> InputDriver \<Rightarrow> IInput list \<Rightarrow> 'o list \<Rightarrow> int \<Rightarrow> double" where
  "calcEmissionsDriver getInput d aInputs aOutputs aPeriod =
     (case getInput aInputs (mInputName d) of
        Some inputToDrive \<Rightarrow> getPhysicalDemand inputToDrive aPeriod
      | None \<Rightarrow> 0.0)"

text \<open>A lookup of the first input of a name, to run the driver on concrete vectors.\<close>

definition firstInputNamed :: "IInput list \<Rightarrow> string \<Rightarrow> IInput option" where
  "firstInputNamed aInputs aName = find (\<lambda>i. getName i = aName) aInputs"

section \<open>Notions for the proofs\<close>

text \<open>The entries of a \<open>std::map\<close> ascend strictly in their keys.\<close>

definition ssorted :: "'v strmap \<Rightarrow> bool" where
  "ssorted m = sorted_wrt (<) (map fst m)"

text \<open>The points of a point set ascend strictly in x.\<close>

definition xsorted :: "XYDataPoint list \<Rightarrow> bool" where
  "xsorted ps = sorted_wrt (\<lambda>a b. fst a < fst b) ps"

text \<open>A loop that computes one result for each element in turn and ends at the first failure.\<close>

fun emap :: "('a \<Rightarrow> error + 'b) \<Rightarrow> 'a list \<Rightarrow> error + 'b list" where
  "emap f [] = Inr []"
| "emap f (x # xs) =
     (case f x of Inl e \<Rightarrow> Inl e
      | Inr y \<Rightarrow> (case emap f xs of Inl e \<Rightarrow> Inl e | Inr ys \<Rightarrow> Inr (y # ys)))"

text \<open>A sequence of assignments to a map, each key with its value.\<close>

definition setAll :: "string list \<Rightarrow> 'v list \<Rightarrow> 'v strmap \<Rightarrow> 'v strmap" where
  "setAll ks vs m = fold (\<lambda>kv. map_set (fst kv) (snd kv)) (zip ks vs) m"

text \<open>The cost curves of one period: one for each region of the map of trial 0, in its order.\<close>

definition periodCurves :: "CurveOps \<Rightarrow> calculator \<Rightarrow> Modeltime \<Rightarrow> nat \<Rightarrow> error + Curve list" where
  "periodCurves ops c modeltime per =
     (if mEmissionsQCurves c = [] then Inl IndexOutOfRange
      else emap (perCostCurve ops c (getper_to_yr modeltime per) per) (mEmissionsQCurves c ! 0))"

text \<open>What the regional loop computes for one region: its cost curve, its cost and its discounted cost.\<close>

definition regionEntry ::
  "'s Scenario \<Rightarrow> CurveOps \<Rightarrow> Configuration \<Rightarrow> RegionCurves list \<Rightarrow> string \<Rightarrow> error + (Curve \<times> double \<times> double)" where
  "regionEntry F ops conf P region =
     ebind (costPoints ops (getModeltime F) P region) (\<lambda>pts.
       let regCostCurve = (PointSetCurve pts)\<lparr>title := region\<rparr>
       in Inr (regCostCurve,
               getIntegral ops regCostCurve (of_int (getInt conf ''discount-start-year'' 2005))
                 (of_int (getEndYear (getModeltime F))),
               getDiscountedValue ops regCostCurve (of_int (getInt conf ''discount-start-year'' 2005))
                 (of_int (getEndYear (getModeltime F))) (getDouble conf ''discountRate'' 0.05)))"

text \<open>The regions that the regional loop does not skip.\<close>

definition notGlobal :: "string list \<Rightarrow> string list" where
  "notGlobal regions = filter (\<lambda>region. region \<noteq> ''global'') regions"

text \<open>What trial \<open>t\<close> does to the world outside: the taxes of the regions, the line of the log, the run.\<close>

definition trialEvents :: "'s Scenario \<Rightarrow> CurveOps \<Rightarrow> string \<Rightarrow> nat \<Rightarrow> RegionCurves \<Rightarrow> 's \<Rightarrow> nat \<Rightarrow> event list" where
  "trialEvents F ops gas N base s t =
     map (\<lambda>rIter. SetTax (regionTax ops (getModeltime F) gas (real t / real N) rIter)) base
     @ [Log (startMessage t), Run RUN_ALL_PERIODS True (toString t) (trialFlag F ops gas N base s t)]"

text \<open>The two vectors of trial curves after a sweep of \<open>N\<close> trials that starts in the state \<open>s\<close>.\<close>

definition sweepQCurves :: "'s Scenario \<Rightarrow> CurveOps \<Rightarrow> string \<Rightarrow> nat \<Rightarrow> 's \<Rightarrow> RegionCurves list" where
  "sweepQCurves F ops gas N s =
     map (\<lambda>t. getEmissionsQuantityCurves F
                 (sweepState F ops gas N (getEmissionsPriceCurves F s gas) s (Suc t)) gas) [0..<N]
     @ [getEmissionsQuantityCurves F s gas]"

text \<open>The same for the tax curves.\<close>

definition sweepTCurves :: "'s Scenario \<Rightarrow> CurveOps \<Rightarrow> string \<Rightarrow> nat \<Rightarrow> 's \<Rightarrow> RegionCurves list" where
  "sweepTCurves F ops gas N s =
     map (\<lambda>t. getEmissionsPriceCurves F
                 (sweepState F ops gas N (getEmissionsPriceCurves F s gas) s (Suc t)) gas) [0..<N]
     @ [getEmissionsPriceCurves F s gas]"

text \<open>The runs among the events.\<close>

fun isRun :: "event \<Rightarrow> bool" where
  "isRun (Run scope full tag ok) = True"
| "isRun e = False"

section \<open>A small scenario\<close>

text \<open>
  A scenario to run the calculator on: three regions, one of them named \<open>global\<close>,
  two periods (the years 2005 and 2020) and two trials. The state of the scenario is the tax
  of each region in each period; the emissions of a region are 100 less twice its tax; a run
  fails when its tag is in the list \<open>failing\<close>. The curves of this scenario look a value
  up at a sample, the integral is the trapezoid rule over the samples between the bounds, and
  the discounted value divides it by one plus the rate.
\<close>

text \<open>The trapezoid rule over a list of samples.\<close>

fun trapezoid :: "XYDataPoint list \<Rightarrow> double" where
  "trapezoid (p # q # ps) = (fst q - fst p) * (snd p + snd q) / 2 + trapezoid (q # ps)"
| "trapezoid ps = 0"

definition demoOps :: CurveOps where
  "demoOps =
     \<lparr>getY = (\<lambda>crv x. case map_of (points crv) x of Some y \<Rightarrow> y | None \<Rightarrow> 0),
      getIntegral = (\<lambda>crv lo hi. trapezoid (filter (\<lambda>p. lo \<le> fst p \<and> fst p \<le> hi) (points crv))),
      getDiscountedValue = (\<lambda>crv lo hi rate.
         trapezoid (filter (\<lambda>p. lo \<le> fst p \<and> fst p \<le> hi) (points crv)) / (1 + rate)),
      DBL_MAX = (2 - 1 / 2 ^ 52) * 2 ^ 1023\<rparr>"

definition demoTime :: Modeltime where
  "demoTime = \<lparr>getmaxper = 2, getper_to_yr = (\<lambda>per. 2005 + 15 * int per), getEndYear = 2020\<rparr>"

definition demoCurve :: "double list \<Rightarrow> Curve" where
  "demoCurve ys = PointSetCurve (zip [2005, 2020] ys)"

definition demoScenario :: "string list \<Rightarrow> (double list strmap) Scenario" where
  "demoScenario failing =
     \<lparr>getPrice = (\<lambda>s gas region per. case map_of s region of
                    None \<Rightarrow> - 1
                  | Some taxes \<Rightarrow> if nat per < length taxes then taxes ! nat per else - 1),
      NO_MARKET_PRICE = - 1,
      getEmissionsQuantityCurves = (\<lambda>s gas. map (\<lambda>(region, taxes). (region, demoCurve (map (\<lambda>t. 100 - 2 * t) taxes))) s),
      getEmissionsPriceCurves = (\<lambda>s gas. map (\<lambda>(region, taxes). (region, demoCurve taxes)) s),
      setTax = (\<lambda>tax s. map_set (policyRegion tax) (policyTaxes tax) s),
      run = (\<lambda>scope full tag s. (tag \<notin> set failing, s)),
      getModeltime = demoTime\<rparr>"

definition demoConf :: Configuration where
  "demoConf = \<lparr>stringParams = Map.empty, intParams = [''numPointsForCO2CostCurve'' \<mapsto> 2], doubleParams = Map.empty\<rparr>"

definition demoState :: "double list strmap" where
  "demoState = [(''EU'', [6, 12]), (''USA'', [10, 20]), (''global'', [4, 8])]"

text \<open>A state with a tax in the region EU and no region USA.\<close>

definition demoNoUSA :: "double list strmap" where
  "demoNoUSA = [(''EU'', [6, 12])]"

text \<open>The state of the scenario after the two trials: the taxes of trial 1.\<close>

definition demoEnd :: "double list strmap" where
  "demoEnd = [(''EU'', [3, 6]), (''USA'', [5, 10]), (''global'', [2, 4])]"

text \<open>The quantity and tax curves of trials 0 and 1 and of the primary run.\<close>

definition demoQ :: "RegionCurves list" where
  "demoQ =
     [[(''EU'', demoCurve [100, 100]), (''USA'', demoCurve [100, 100]), (''global'', demoCurve [100, 100])],
      [(''EU'', demoCurve [94, 88]), (''USA'', demoCurve [90, 80]), (''global'', demoCurve [96, 92])],
      [(''EU'', demoCurve [88, 76]), (''USA'', demoCurve [80, 60]), (''global'', demoCurve [92, 84])]]"

definition demoT :: "RegionCurves list" where
  "demoT =
     [[(''EU'', demoCurve [0, 0]), (''USA'', demoCurve [0, 0]), (''global'', demoCurve [0, 0])],
      [(''EU'', demoCurve [3, 6]), (''USA'', demoCurve [5, 10]), (''global'', demoCurve [2, 4])],
      [(''EU'', demoCurve [6, 12]), (''USA'', demoCurve [10, 20]), (''global'', demoCurve [4, 8])]]"

definition demoPerCurve :: "string \<Rightarrow> int \<Rightarrow> XYDataPoint list \<Rightarrow> Curve" where
  "demoPerCurve region per pts =
     \<lparr>points = pts, title = region @ '' period cost curve'', numericalLabel = Some per\<rparr>"

text \<open>The cost curves of the two periods.\<close>

definition demoP :: "RegionCurves list" where
  "demoP =
     [[(''EU'', demoPerCurve ''EU'' 0 [(0, 0), (6, 3), (12, 6)]),
       (''USA'', demoPerCurve ''USA'' 0 [(0, 0), (10, 5), (20, 10)]),
       (''global'', demoPerCurve ''global'' 0 [(0, 0), (4, 2), (8, 4)])],
      [(''EU'', demoPerCurve ''EU'' 1 [(0, 0), (12, 6), (24, 12)]),
       (''USA'', demoPerCurve ''USA'' 1 [(0, 0), (20, 10), (40, 20)]),
       (''global'', demoPerCurve ''global'' 1 [(0, 0), (8, 4), (16, 8)])]]"

definition demoRegCurve :: "string \<Rightarrow> XYDataPoint list \<Rightarrow> Curve" where
  "demoRegCurve region pts = \<lparr>points = pts, title = region, numericalLabel = None\<rparr>"

text \<open>The calculator after the sweep, and after the whole computation.\<close>

definition demoSwept :: calculator where
  "demoSwept =
     \<lparr>mGHGName = ''CO2'', mNumPoints = 2, mRanCosts = False, mGlobalCost = 0, mGlobalDiscountedCost = 0,
      mEmissionsQCurves = demoQ, mEmissionsTCurves = demoT, mPeriodCostCurves = [],
      mRegionalCostCurves = [], mRegionalCosts = [], mRegionalDiscountedCosts = []\<rparr>"

definition demoDone :: calculator where
  "demoDone =
     \<lparr>mGHGName = ''CO2'', mNumPoints = 2, mRanCosts = True, mGlobalCost = 5100, mGlobalDiscountedCost = 34000 / 7,
      mEmissionsQCurves = demoQ, mEmissionsTCurves = demoT, mPeriodCostCurves = demoP,
      mRegionalCostCurves =
        [(''EU'', demoRegCurve ''EU'' [(2005, 36), (2020, 144)]),
         (''USA'', demoRegCurve ''USA'' [(2005, 100), (2020, 400)])],
      mRegionalCosts = [(''EU'', 1350), (''USA'', 3750)],
      mRegionalDiscountedCosts = [(''EU'', 9000 / 7), (''USA'', 25000 / 7)]\<rparr>"

text \<open>The events of the sweep.\<close>

definition demoTrace :: "string list \<Rightarrow> event list" where
  "demoTrace failing =
     [SetTax \<lparr>policyGas = ''CO2'', policyRegion = ''EU'', policyTaxes = [0, 0]\<rparr>,
      SetTax \<lparr>policyGas = ''CO2'', policyRegion = ''USA'', policyTaxes = [0, 0]\<rparr>,
      SetTax \<lparr>policyGas = ''CO2'', policyRegion = ''global'', policyTaxes = [0, 0]\<rparr>,
      Log ''Starting cost curve point run number 0.'',
      Run RUN_ALL_PERIODS True ''0'' (''0'' \<notin> set failing),
      SetTax \<lparr>policyGas = ''CO2'', policyRegion = ''EU'', policyTaxes = [3, 6]\<rparr>,
      SetTax \<lparr>policyGas = ''CO2'', policyRegion = ''USA'', policyTaxes = [5, 10]\<rparr>,
      SetTax \<lparr>policyGas = ''CO2'', policyRegion = ''global'', policyTaxes = [2, 4]\<rparr>,
      Log ''Starting cost curve point run number 1.'',
      Run RUN_ALL_PERIODS True ''1'' (''1'' \<notin> set failing)]"

section \<open>Loops, maps and point sets\<close>

lemma ebind_Inr_iff: "ebind m f = Inr y \<longleftrightarrow> (\<exists>x. m = Inr x \<and> f x = Inr y)"
  by (cases m) (simp_all add: ebind_def)

lemma ebind_Inr [simp]: "ebind (Inr x) f = f x"
  by (simp add: ebind_def)

lemma ebind_Inl [simp]: "ebind (Inl e) f = Inl e"
  by (simp add: ebind_def)

lemma efold_append: "efold f (xs @ ys) s = ebind (efold f xs s) (efold f ys)"
  by (induction xs arbitrary: s) (simp_all split: sum.splits)

lemma efold_snoc: "efold f (xs @ [x]) s = ebind (efold f xs s) (f x)"
  by (simp add: efold_append ebind_def split: sum.splits)

lemma efold_upt_Suc: "efold f [0..<Suc k] s = ebind (efold f [0..<k] s) (f k)"
  by (simp add: efold_snoc)

lemma map_of_map_set: "map_of (map_set k v m) = (map_of m)(k \<mapsto> v)"
proof (induction m)
  case Nil
  show ?case by simp
next
  case (Cons a m)
  obtain k' v' where a: "a = (k', v')" by (cases a)
  show ?case
  proof (cases "k = k'")
    case True
    then show ?thesis by (simp add: a fun_eq_iff)
  next
    case False
    then have "((map_of m)(k \<mapsto> v))(k' \<mapsto> v') = ((map_of m)(k' \<mapsto> v'))(k \<mapsto> v)"
      by (simp add: fun_upd_twist)
    with False Cons.IH show ?thesis by (auto simp: a fun_eq_iff)
  qed
qed





lemma addPoint_Cons:
  "addPoint p (q # ps) = Inr qs \<Longrightarrow>
     fst p \<noteq> fst q \<and>
     (if fst p < fst q then qs = p # q # ps
      else \<exists>qs'. addPoint p ps = Inr qs' \<and> qs = q # qs')"
  by (cases "addPoint p ps") (simp_all split: if_splits)

lemma addPoint_set: "addPoint p ps = Inr qs \<Longrightarrow> set qs = insert p (set ps)"
proof (induction ps arbitrary: qs)
  case Nil
  then show ?case by auto
next
  case (Cons q ps)
  from addPoint_Cons [OF Cons.prems] show ?case
  proof (cases "fst p < fst q")
    case True
    with addPoint_Cons [OF Cons.prems] show ?thesis by auto
  next
    case False
    with addPoint_Cons [OF Cons.prems] obtain qs' where "addPoint p ps = Inr qs'" "qs = q # qs'"
      by auto
    with Cons.IH [of qs'] show ?thesis by auto
  qed
qed

lemma addPoint_length: "addPoint p ps = Inr qs \<Longrightarrow> length qs = Suc (length ps)"
proof (induction ps arbitrary: qs)
  case Nil
  then show ?case by auto
next
  case (Cons q ps)
  show ?case
  proof (cases "fst p < fst q")
    case True
    with addPoint_Cons [OF Cons.prems] show ?thesis by auto
  next
    case False
    with addPoint_Cons [OF Cons.prems] obtain qs' where "addPoint p ps = Inr qs'" "qs = q # qs'"
      by auto
    with Cons.IH [of qs'] show ?thesis by auto
  qed
qed

lemma addPoint_sorted: "addPoint p ps = Inr qs \<Longrightarrow> xsorted ps \<Longrightarrow> xsorted qs"
proof (induction ps arbitrary: qs)
  case Nil
  then show ?case by (auto simp: xsorted_def)
next
  case (Cons q ps)
  from Cons.prems(2) have sp: "xsorted ps" and lt: "\<forall>x\<in>set ps. fst q < fst x"
    by (simp_all add: xsorted_def)
  from Cons.prems(1) have ne: "fst p \<noteq> fst q"
    by (simp split: if_splits)
  show ?case
  proof (cases "fst p < fst q")
    case True
    with Cons.prems(1) ne have qs: "qs = p # q # ps" by simp
    have "\<forall>x\<in>set ps. fst p < fst x"
    proof
      fix x assume "x \<in> set ps"
      with lt have "fst q < fst x" by simp
      with True show "fst p < fst x" by simp
    qed
    with Cons.prems(2) True show ?thesis by (simp add: qs xsorted_def)
  next
    case False
    with Cons.prems(1) ne obtain qs' where a: "addPoint p ps = Inr qs'" and qs: "qs = q # qs'"
      by (cases "addPoint p ps") simp_all
    have "xsorted qs'" using Cons.IH a sp by simp
    moreover have "set qs' = insert p (set ps)" using a by (rule addPoint_set)
    moreover have "fst q < fst p" using False ne by simp
    ultimately show ?thesis using lt by (simp add: qs xsorted_def)
  qed
qed

section \<open>The sweep of the trials\<close>

lemma setRegionTaxes_trace:
  "setRegionTaxes F ops gas fr regions (s, tr) =
     (fst (setRegionTaxes F ops gas fr regions (s, [])),
      tr @ map (\<lambda>rIter. SetTax (regionTax ops (getModeltime F) gas fr rIter)) regions)"
proof -
  have gen: "setRegionTaxes F ops gas fr regions (s, tr0 @ tr) =
     (fst (setRegionTaxes F ops gas fr regions (s, tr)),
      tr0 @ snd (setRegionTaxes F ops gas fr regions (s, tr)))" for regions s tr0 tr
  proof (induction regions arbitrary: s tr)
    case Nil
    show ?case by simp
  next
    case (Cons r regions)
    show ?case using Cons.IH [of "setTax F (regionTax ops (getModeltime F) gas fr r) s"
        "tr @ [SetTax (regionTax ops (getModeltime F) gas fr r)]"]
      by (simp add: Let_def)
  qed
  have snd0: "snd (setRegionTaxes F ops gas fr regions (s, []))
      = map (\<lambda>rIter. SetTax (regionTax ops (getModeltime F) gas fr rIter)) regions" for regions s
  proof (induction regions arbitrary: s)
    case Nil
    show ?case by simp
  next
    case (Cons r regions)
    show ?case
      using Cons.IH [of "setTax F (regionTax ops (getModeltime F) gas fr r) s"]
        gen [of regions "setTax F (regionTax ops (getModeltime F) gas fr r) s"
          "[SetTax (regionTax ops (getModeltime F) gas fr r)]" "[]"]
      by (simp add: Let_def)
  qed
  show ?thesis
    using gen [of regions s tr "[]"] snd0 [of regions s]
    by simp
qed

lemma runTrial_step:
  assumes "length (mEmissionsTCurves c) = mNumPoints c + 1"
      and "length (mEmissionsQCurves c) = mNumPoints c + 1"
      and "k < mNumPoints c"
      and "st = sweepState F ops (mGHGName c) (mNumPoints c) (mEmissionsTCurves c ! mNumPoints c) s k"
  shows "runTrial F ops k (ok, c, st, tr) =
     Inr (ok \<and> trialFlag F ops (mGHGName c) (mNumPoints c) (mEmissionsTCurves c ! mNumPoints c) s k,
          c\<lparr>mEmissionsQCurves := (mEmissionsQCurves c)
               [k := getEmissionsQuantityCurves F
                  (sweepState F ops (mGHGName c) (mNumPoints c) (mEmissionsTCurves c ! mNumPoints c) s (Suc k)) (mGHGName c)],
            mEmissionsTCurves := (mEmissionsTCurves c)
               [k := getEmissionsPriceCurves F
                  (sweepState F ops (mGHGName c) (mNumPoints c) (mEmissionsTCurves c ! mNumPoints c) s (Suc k)) (mGHGName c)]\<rparr>,
          sweepState F ops (mGHGName c) (mNumPoints c) (mEmissionsTCurves c ! mNumPoints c) s (Suc k),
          tr @ trialEvents F ops (mGHGName c) (mNumPoints c) (mEmissionsTCurves c ! mNumPoints c) s k)"
  using assms
  by (simp add: runTrial_def Let_def trialEvents_def trialFlag_def split_beta
      setRegionTaxes_trace [of F ops _ _ _ _ tr])

lemma runTrials_prefix:
  assumes lT: "length (mEmissionsTCurves c) = mNumPoints c + 1"
      and lQ: "length (mEmissionsQCurves c) = mNumPoints c + 1"
      and k: "k \<le> mNumPoints c"
  shows "\<exists>Qk Tk. efold (runTrial F ops) [0..<k] (True, c, s, []) =
           Inr ((\<forall>t<k. trialFlag F ops (mGHGName c) (mNumPoints c) (mEmissionsTCurves c ! mNumPoints c) s t),
                c\<lparr>mEmissionsQCurves := Qk, mEmissionsTCurves := Tk\<rparr>,
                sweepState F ops (mGHGName c) (mNumPoints c) (mEmissionsTCurves c ! mNumPoints c) s k,
                concat (map (trialEvents F ops (mGHGName c) (mNumPoints c) (mEmissionsTCurves c ! mNumPoints c) s) [0..<k]))
         \<and> length Qk = mNumPoints c + 1
         \<and> length Tk = mNumPoints c + 1
         \<and> (\<forall>t\<le>mNumPoints c. Qk ! t =
               (if t < k then getEmissionsQuantityCurves F
                    (sweepState F ops (mGHGName c) (mNumPoints c) (mEmissionsTCurves c ! mNumPoints c) s (Suc t)) (mGHGName c)
                else mEmissionsQCurves c ! t))
         \<and> (\<forall>t\<le>mNumPoints c. Tk ! t =
               (if t < k then getEmissionsPriceCurves F
                    (sweepState F ops (mGHGName c) (mNumPoints c) (mEmissionsTCurves c ! mNumPoints c) s (Suc t)) (mGHGName c)
                else mEmissionsTCurves c ! t))"
  using k
proof (induction k)
  case 0
  show ?case
    by (rule exI [of _ "mEmissionsQCurves c"], rule exI [of _ "mEmissionsTCurves c"]) (simp add: lT lQ)
next
  case (Suc k)
  let ?N = "mNumPoints c" and ?gas = "mGHGName c" and ?base = "mEmissionsTCurves c ! mNumPoints c"
  from Suc.prems have kN: "k < ?N" by simp
  from Suc.IH [OF less_imp_le [OF kN]] obtain Qk Tk where
    run: "efold (runTrial F ops) [0..<k] (True, c, s, []) =
           Inr ((\<forall>t<k. trialFlag F ops ?gas ?N ?base s t),
                c\<lparr>mEmissionsQCurves := Qk, mEmissionsTCurves := Tk\<rparr>, sweepState F ops ?gas ?N ?base s k,
                concat (map (trialEvents F ops ?gas ?N ?base s) [0..<k]))"
    and lQk: "length Qk = ?N + 1"
    and lTk: "length Tk = ?N + 1"
    and Qk: "\<forall>t\<le>?N. Qk ! t =
               (if t < k then getEmissionsQuantityCurves F (sweepState F ops ?gas ?N ?base s (Suc t)) ?gas
                else mEmissionsQCurves c ! t)"
    and Tk: "\<forall>t\<le>?N. Tk ! t =
               (if t < k then getEmissionsPriceCurves F (sweepState F ops ?gas ?N ?base s (Suc t)) ?gas
                else mEmissionsTCurves c ! t)"
    by (elim exE conjE) (rule that; assumption)
  let ?ck = "c\<lparr>mEmissionsQCurves := Qk, mEmissionsTCurves := Tk\<rparr>"
  from Tk kN have bk: "Tk ! ?N = ?base" by simp
  let ?Q' = "Qk[k := getEmissionsQuantityCurves F (sweepState F ops ?gas ?N ?base s (Suc k)) ?gas]"
  let ?T' = "Tk[k := getEmissionsPriceCurves F (sweepState F ops ?gas ?N ?base s (Suc k)) ?gas]"
  have step: "runTrial F ops k ((\<forall>t<k. trialFlag F ops ?gas ?N ?base s t), ?ck,
        sweepState F ops ?gas ?N ?base s k, concat (map (trialEvents F ops ?gas ?N ?base s) [0..<k]))
     = Inr ((\<forall>t<k. trialFlag F ops ?gas ?N ?base s t) \<and> trialFlag F ops ?gas ?N ?base s k,
            c\<lparr>mEmissionsQCurves := ?Q', mEmissionsTCurves := ?T'\<rparr>,
            sweepState F ops ?gas ?N ?base s (Suc k),
            concat (map (trialEvents F ops ?gas ?N ?base s) [0..<k]) @ trialEvents F ops ?gas ?N ?base s k)"
    using runTrial_step [of ?ck k _ F ops s] lTk lQk kN bk by simp
  have all: "((\<forall>t<k. trialFlag F ops ?gas ?N ?base s t) \<and> trialFlag F ops ?gas ?N ?base s k)
      = (\<forall>t<Suc k. trialFlag F ops ?gas ?N ?base s t)"
    by (auto simp: less_Suc_eq)
  show ?case
  proof (rule exI [of _ ?Q'], rule exI [of _ ?T'], intro conjI)
    show "efold (runTrial F ops) [0..<Suc k] (True, c, s, []) =
      Inr ((\<forall>t<Suc k. trialFlag F ops ?gas ?N ?base s t),
           c\<lparr>mEmissionsQCurves := ?Q', mEmissionsTCurves := ?T'\<rparr>,
           sweepState F ops ?gas ?N ?base s (Suc k),
           concat (map (trialEvents F ops ?gas ?N ?base s) [0..<Suc k]))"
      by (simp only: efold_upt_Suc run ebind_Inr step all) simp
    show "length ?Q' = ?N + 1" using lQk by simp
    show "length ?T' = ?N + 1" using lTk by simp
    show "\<forall>t\<le>?N. ?Q' ! t =
               (if t < Suc k then getEmissionsQuantityCurves F (sweepState F ops ?gas ?N ?base s (Suc t)) ?gas
                else mEmissionsQCurves c ! t)"
      using Qk lQk kN by (auto simp: nth_list_update less_Suc_eq)
    show "\<forall>t\<le>?N. ?T' ! t =
               (if t < Suc k then getEmissionsPriceCurves F (sweepState F ops ?gas ?N ?base s (Suc t)) ?gas
                else mEmissionsTCurves c ! t)"
      using Tk lTk kN by (auto simp: nth_list_update less_Suc_eq)
  qed
qed

lemma length_resize [simp]: "length (resize n d xs) = n"
  by (simp add: resize_def)


lemma storePrimaryRun_eq:
  "storePrimaryRun F c s =
     c\<lparr>mEmissionsQCurves := (resize (mNumPoints c + 1) [] (mEmissionsQCurves c))
                               [mNumPoints c := getEmissionsQuantityCurves F s (mGHGName c)],
       mEmissionsTCurves := (resize (mNumPoints c + 1) [] (mEmissionsTCurves c))
                               [mNumPoints c := getEmissionsPriceCurves F s (mGHGName c)]\<rparr>"
  by (simp add: storePrimaryRun_def Let_def)

lemma runTrials_storePrimaryRun:
  "runTrials F ops (storePrimaryRun F c s) s =
     Inr ((\<forall>t<mNumPoints c. trialFlag F ops (mGHGName c) (mNumPoints c) (getEmissionsPriceCurves F s (mGHGName c)) s t),
          c\<lparr>mEmissionsQCurves := sweepQCurves F ops (mGHGName c) (mNumPoints c) s,
            mEmissionsTCurves := sweepTCurves F ops (mGHGName c) (mNumPoints c) s\<rparr>,
          sweepState F ops (mGHGName c) (mNumPoints c) (getEmissionsPriceCurves F s (mGHGName c)) s (mNumPoints c),
          concat (map (trialEvents F ops (mGHGName c) (mNumPoints c) (getEmissionsPriceCurves F s (mGHGName c)) s)
                    [0..<mNumPoints c]))"
proof -
  let ?N = "mNumPoints c" and ?gas = "mGHGName c" and ?base = "getEmissionsPriceCurves F s (mGHGName c)"
  let ?c2 = "storePrimaryRun F c s"
  have N2: "mNumPoints ?c2 = ?N" and g2: "mGHGName ?c2 = ?gas"
    and lT: "length (mEmissionsTCurves ?c2) = mNumPoints ?c2 + 1"
    and lQ: "length (mEmissionsQCurves ?c2) = mNumPoints ?c2 + 1"
    and b2: "mEmissionsTCurves ?c2 ! ?N = ?base"
    and q2: "mEmissionsQCurves ?c2 ! ?N = getEmissionsQuantityCurves F s ?gas"
    by (simp_all add: storePrimaryRun_eq)
  have le: "mNumPoints ?c2 \<le> mNumPoints ?c2" by simp
  from runTrials_prefix [OF lT lQ le, of F ops s, unfolded N2 g2 b2]
  obtain Qk Tk where
    run: "efold (runTrial F ops) [0..<?N] (True, ?c2, s, []) =
           Inr ((\<forall>t<?N. trialFlag F ops ?gas ?N ?base s t),
                ?c2\<lparr>mEmissionsQCurves := Qk, mEmissionsTCurves := Tk\<rparr>, sweepState F ops ?gas ?N ?base s ?N,
                concat (map (trialEvents F ops ?gas ?N ?base s) [0..<?N]))"
    and lQk: "length Qk = ?N + 1"
    and lTk: "length Tk = ?N + 1"
    and Qk: "\<forall>t\<le>?N. Qk ! t =
               (if t < ?N then getEmissionsQuantityCurves F (sweepState F ops ?gas ?N ?base s (Suc t)) ?gas
                else mEmissionsQCurves ?c2 ! t)"
    and Tk: "\<forall>t\<le>?N. Tk ! t =
               (if t < ?N then getEmissionsPriceCurves F (sweepState F ops ?gas ?N ?base s (Suc t)) ?gas
                else mEmissionsTCurves ?c2 ! t)"
    by (elim exE conjE) (rule that; assumption)
  have "Qk = sweepQCurves F ops ?gas ?N s"
  proof (rule nth_equalityI)
    show "length Qk = length (sweepQCurves F ops ?gas ?N s)"
      using lQk by (simp add: sweepQCurves_def)
    fix t assume "t < length Qk"
    with lQk have "t \<le> ?N" by simp
    with Qk q2 show "Qk ! t = sweepQCurves F ops ?gas ?N s ! t"
      by (cases "t < ?N") (simp_all add: sweepQCurves_def nth_append)
  qed
  moreover have "Tk = sweepTCurves F ops ?gas ?N s"
  proof (rule nth_equalityI)
    show "length Tk = length (sweepTCurves F ops ?gas ?N s)"
      using lTk by (simp add: sweepTCurves_def)
    fix t assume "t < length Tk"
    with lTk have "t \<le> ?N" by simp
    with Tk b2 show "Tk ! t = sweepTCurves F ops ?gas ?N s ! t"
      by (cases "t < ?N") (simp_all add: sweepTCurves_def nth_append)
  qed
  moreover have "?c2\<lparr>mEmissionsQCurves := Qk, mEmissionsTCurves := Tk\<rparr>
      = c\<lparr>mEmissionsQCurves := Qk, mEmissionsTCurves := Tk\<rparr>"
    by (simp add: storePrimaryRun_eq)
  ultimately show ?thesis
    using run by (simp add: runTrials_def N2)
qed

section \<open>The loops as collections of results\<close>

lemma emap_snoc:
  "emap f (xs @ [x]) = ebind (emap f xs) (\<lambda>ys. ebind (f x) (\<lambda>y. Inr (ys @ [y])))"
  by (induction xs) (simp_all add: ebind_def split: sum.splits)

lemma emap_Inr:
  "emap f xs = Inr ys \<Longrightarrow> ys = map (\<lambda>x. projr (f x)) xs \<and> (\<forall>x\<in>set xs. f x = Inr (projr (f x)))"
proof (induction xs arbitrary: ys)
  case Nil
  then show ?case by simp
next
  case (Cons x xs)
  from Cons.prems obtain y ys' where fx: "f x = Inr y" and r: "emap f xs = Inr ys'" and ys: "ys = y # ys'"
    by (cases "f x"; cases "emap f xs") simp_all
  from Cons.IH [OF r] fx show ?case by (simp add: ys)
qed

lemma emap_length: "emap f xs = Inr ys \<Longrightarrow> length ys = length xs"
  by (drule emap_Inr) simp

lemma map_of_fold_set:
  "map_of (fold (\<lambda>kv. map_set (fst kv) (snd kv)) kvs m) = map_of m ++ map_of (rev kvs)"
proof (induction kvs arbitrary: m)
  case Nil
  show ?case by simp
next
  case (Cons kv kvs)
  have "map_of (map_set (fst kv) (snd kv) m) ++ map_of (rev kvs)
      = map_of m ++ (map_of (rev kvs @ [kv]))"
    by (cases kv) (simp add: map_of_map_set map_add_def fun_eq_iff split: option.splits)
  with Cons.IH [of "map_set (fst kv) (snd kv) m"] show ?case by simp
qed



lemma ssorted_Nil [simp]: "ssorted []"
  by (simp add: ssorted_def)


lemma map_of_setAll_map:
  "k \<in> set ks \<Longrightarrow> map_of (setAll ks (map g ks) m) k = Some (g k)"
proof -
  assume k: "k \<in> set ks"
  have "rev (zip ks (map g ks)) = zip (rev ks) (map g (rev ks))"
    by (simp add: zip_rev rev_map [symmetric])
  then have "map_of (rev (zip ks (map g ks))) k = Some (g k)"
    using k by (simp add: map_of_zip_map)
  then show ?thesis by (simp add: setAll_def map_of_fold_set)
qed


lemma periodRegions_loop:
  "per < length P \<Longrightarrow>
   efold (\<lambda>rIter P. ebind (perCostCurve ops c year per rIter) (\<lambda>crv.
                    if length P \<le> per then Inl IndexOutOfRange
                    else Inr (P[per := map_set (fst rIter) crv (P ! per)]))) regions P
   = ebind (emap (perCostCurve ops c year per) regions)
       (\<lambda>crvs. Inr (P[per := setAll (map fst regions) crvs (P ! per)]))"
proof (induction regions arbitrary: P)
  case Nil
  then show ?case by (simp add: setAll_def)
next
  case (Cons r regions)
  show ?case
  proof (cases "perCostCurve ops c year per r")
    case (Inl e)
    then show ?thesis by simp
  next
    case (Inr crv)
    let ?P = "P[per := map_set (fst r) crv (P ! per)]"
    from Cons.prems have l: "per < length ?P" by simp
    show ?thesis
    proof (cases "emap (perCostCurve ops c year per) regions")
      case (Inl e)
      with Inr Cons.prems Cons.IH [OF l] show ?thesis by simp
    next
      case crvs: (Inr crvs)
      with Inr Cons.prems Cons.IH [OF l] show ?thesis by (simp add: setAll_def)
    qed
  qed
qed

lemma periodRegions_eq:
  "per < length P \<Longrightarrow>
   periodRegions ops c modeltime per P =
     ebind (periodCurves ops c modeltime per)
       (\<lambda>crvs. Inr (P[per := setAll (map fst (mEmissionsQCurves c ! 0)) crvs (P ! per)]))"
  by (simp add: periodRegions_def periodCurves_def periodRegions_loop)

lemma periods_loop:
  "k \<le> length P \<Longrightarrow>
   efold (periodRegions ops c modeltime) [0..<k] P =
     ebind (emap (periodCurves ops c modeltime) [0..<k])
       (\<lambda>crvss. Inr (map (\<lambda>per. setAll (map fst (mEmissionsQCurves c ! 0)) (crvss ! per) (P ! per)) [0..<k]
                      @ drop k P))"
proof (induction k)
  case 0
  show ?case by simp
next
  case (Suc k)
  let ?keys = "map fst (mEmissionsQCurves c ! 0)"
  from Suc.prems have kl: "k < length P" and kle: "k \<le> length P" by simp_all
  show ?case
  proof (cases "emap (periodCurves ops c modeltime) [0..<k]")
    case (Inl e)
    with Suc.IH [OF kle] show ?thesis by (simp add: efold_snoc emap_snoc)
  next
    case (Inr crvss)
    let ?Pk = "map (\<lambda>per. setAll ?keys (crvss ! per) (P ! per)) [0..<k] @ drop k P"
    have lk: "length crvss = k" using emap_length [OF Inr] by simp
    have run: "efold (periodRegions ops c modeltime) [0..<k] P = Inr ?Pk"
      using Suc.IH [OF kle] Inr by simp
    have l: "k < length ?Pk" using kl by simp
    have Pkk: "?Pk ! k = P ! k" using kl by (simp add: nth_append)
    show ?thesis
    proof (cases "periodCurves ops c modeltime k")
      case (Inl e)
      with run l Inr show ?thesis by (simp add: efold_snoc emap_snoc periodRegions_eq)
    next
      case crvs: (Inr crvs)
      have upd: "?Pk[k := setAll ?keys crvs (P ! k)]
          = map (\<lambda>per. setAll ?keys ((crvss @ [crvs]) ! per) (P ! per)) [0..<Suc k] @ drop (Suc k) P"
      proof (rule nth_equalityI)
        show "length (?Pk[k := setAll ?keys crvs (P ! k)])
            = length (map (\<lambda>per. setAll ?keys ((crvss @ [crvs]) ! per) (P ! per)) [0..<Suc k] @ drop (Suc k) P)"
          using kl by simp
        fix i assume "i < length (?Pk[k := setAll ?keys crvs (P ! k)])"
        then have il: "i < length P" using kle by simp
        consider "i < k" | "i = k" | "k < i" by linarith
        then show "?Pk[k := setAll ?keys crvs (P ! k)] ! i
            = (map (\<lambda>per. setAll ?keys ((crvss @ [crvs]) ! per) (P ! per)) [0..<Suc k] @ drop (Suc k) P) ! i"
        proof cases
          case 1
          then show ?thesis using kl lk by (simp add: nth_append del: upt_Suc)
        next
          case 2
          then show ?thesis using kl lk by (simp add: nth_append del: upt_Suc)
        next
          case 3
          then show ?thesis using kl lk il by (simp add: nth_append del: upt_Suc)
        qed
      qed
      have "efold (periodRegions ops c modeltime) [0..<Suc k] P
          = periodRegions ops c modeltime k ?Pk"
        by (simp only: efold_upt_Suc run ebind_Inr)
      also have "\<dots> = Inr (?Pk[k := setAll ?keys crvs (?Pk ! k)])"
        by (simp only: periodRegions_eq [OF l] crvs ebind_Inr)
      also have "\<dots> = Inr (map (\<lambda>per. setAll ?keys ((crvss @ [crvs]) ! per) (P ! per)) [0..<Suc k]
                              @ drop (Suc k) P)"
        by (simp only: Pkk upd)
      finally have lhs: "efold (periodRegions ops c modeltime) [0..<Suc k] P
          = Inr (map (\<lambda>per. setAll ?keys ((crvss @ [crvs]) ! per) (P ! per)) [0..<Suc k]
                              @ drop (Suc k) P)" .
      have "emap (periodCurves ops c modeltime) [0..<Suc k] = Inr (crvss @ [crvs])"
        using Inr crvs by (simp add: emap_snoc)
      with lhs show ?thesis by (simp only: ebind_Inr)
    qed
  qed
qed

lemma createCostCurvesByPeriod_eq:
  "createCostCurvesByPeriod F ops c =
     ebind (emap (periodCurves ops c (getModeltime F)) [0..<getmaxper (getModeltime F)])
       (\<lambda>crvss. Inr (c\<lparr>mPeriodCostCurves :=
           map (\<lambda>per. setAll (map fst (mEmissionsQCurves c ! 0)) (crvss ! per)
                        (resize (getmaxper (getModeltime F)) [] (mPeriodCostCurves c) ! per))
             [0..<getmaxper (getModeltime F)]\<rparr>))"
proof -
  have "getmaxper (getModeltime F) \<le> length (resize (getmaxper (getModeltime F)) [] (mPeriodCostCurves c))"
    by simp
  from periods_loop [OF this, of ops c "getModeltime F"]
  show ?thesis
    by (cases "emap (periodCurves ops c (getModeltime F)) [0..<getmaxper (getModeltime F)]")
      (simp_all add: createCostCurvesByPeriod_def Let_def)
qed

lemma addPoints_loop:
  "efold (\<lambda>i pts. ebind (g i) (\<lambda>pt. addPoint pt pts)) [0..<k] [] = Inr pts \<Longrightarrow>
     length pts = k \<and> xsorted pts \<and>
     (\<forall>i<k. \<exists>pt. g i = Inr pt \<and> pt \<in> set pts) \<and>
     (\<forall>pt\<in>set pts. \<exists>i<k. g i = Inr pt)"
proof (induction k arbitrary: pts)
  case 0
  then show ?case by (simp add: xsorted_def)
next
  case (Suc k)
  from Suc.prems obtain pts0 where
    run: "efold (\<lambda>i pts. ebind (g i) (\<lambda>pt. addPoint pt pts)) [0..<k] [] = Inr pts0"
    and body: "ebind (g k) (\<lambda>pt. addPoint pt pts0) = Inr pts"
    by (simp only: efold_upt_Suc ebind_Inr_iff) blast
  from body obtain pt where gk: "g k = Inr pt" and add: "addPoint pt pts0 = Inr pts"
    by (simp only: ebind_Inr_iff) blast
  from Suc.IH [OF run] have
    l0: "length pts0 = k" and s0: "xsorted pts0"
    and a0: "\<forall>i<k. \<exists>pt. g i = Inr pt \<and> pt \<in> set pts0"
    and b0: "\<forall>pt\<in>set pts0. \<exists>i<k. g i = Inr pt"
    by simp_all
  have set: "set pts = insert pt (set pts0)" using add by (rule addPoint_set)
  have "length pts = Suc k" using addPoint_length [OF add] l0 by simp
  moreover have "xsorted pts" using add s0 by (rule addPoint_sorted)
  moreover have "\<forall>i<Suc k. \<exists>pt. g i = Inr pt \<and> pt \<in> set pts"
  proof (intro allI impI)
    fix i assume "i < Suc k"
    then consider "i < k" | "i = k" by linarith
    then show "\<exists>pt. g i = Inr pt \<and> pt \<in> set pts"
    proof cases
      case 1
      with a0 obtain p where "g i = Inr p" "p \<in> set pts0" by blast
      then show ?thesis using set by blast
    next
      case 2
      then show ?thesis using gk set by blast
    qed
  qed
  moreover have "\<forall>p\<in>set pts. \<exists>i<Suc k. g i = Inr p"
  proof
    fix p assume "p \<in> set pts"
    then consider "p = pt" | "p \<in> set pts0" using set by blast
    then show "\<exists>i<Suc k. g i = Inr p"
    proof cases
      case 1
      then show ?thesis using gk by blast
    next
      case 2
      with b0 obtain i where "i < k" "g i = Inr p" by blast
      then show ?thesis using less_Suc_eq by blast
    qed
  qed
  ultimately show ?case by blast
qed

lemma curveAt_Inr:
  "curveAt curves i region = Inr crv \<longleftrightarrow> i < length curves \<and> map_of (curves ! i) region = Some crv"
  by (simp add: curveAt_def split: option.splits)

lemma trialPoint_Inr:
  "trialPoint ops c year rIter trial = Inr pt \<longleftrightarrow>
     (\<exists>q t. trial < length (mEmissionsQCurves c) \<and> map_of (mEmissionsQCurves c ! trial) (fst rIter) = Some q \<and>
            trial < length (mEmissionsTCurves c) \<and> map_of (mEmissionsTCurves c ! trial) (fst rIter) = Some t \<and>
            pt = (getY ops (snd rIter) (of_int year) - getY ops q (of_int year), getY ops t (of_int year)))"
  by (simp add: trialPoint_def ebind_Inr_iff curveAt_Inr) blast

lemma perCostCurve_Inr:
  assumes "perCostCurve ops c year per rIter = Inr crv"
  shows "length (points crv) = mNumPoints c + 1 \<and> xsorted (points crv) \<and>
     title crv = fst rIter @ '' period cost curve'' \<and> numericalLabel crv = Some (int per) \<and>
     (\<forall>trial\<le>mNumPoints c. \<exists>q t.
        map_of (mEmissionsQCurves c ! trial) (fst rIter) = Some q \<and>
        map_of (mEmissionsTCurves c ! trial) (fst rIter) = Some t \<and>
        (getY ops (snd rIter) (of_int year) - getY ops q (of_int year), getY ops t (of_int year)) \<in> set (points crv)) \<and>
     (\<forall>pt\<in>set (points crv). \<exists>trial\<le>mNumPoints c. \<exists>q t.
        map_of (mEmissionsQCurves c ! trial) (fst rIter) = Some q \<and>
        map_of (mEmissionsTCurves c ! trial) (fst rIter) = Some t \<and>
        pt = (getY ops (snd rIter) (of_int year) - getY ops q (of_int year), getY ops t (of_int year)))"
proof -
  from assms obtain pts where tp: "trialPoints ops c year rIter = Inr pts"
    and crv: "crv = (PointSetCurve pts)\<lparr>title := fst rIter @ '' period cost curve'', numericalLabel := Some (int per)\<rparr>"
    by (auto simp: perCostCurve_def ebind_Inr_iff)
  have pts: "points crv = pts" by (simp add: crv PointSetCurve_def)
  from tp have loop: "efold (\<lambda>i pts. ebind (trialPoint ops c year rIter i) (\<lambda>pt. addPoint pt pts))
      [0..<mNumPoints c + 1] [] = Inr pts"
    by (simp add: trialPoints_def)
  note L = addPoints_loop [OF loop]
  have a: "\<forall>trial\<le>mNumPoints c. \<exists>q t.
        map_of (mEmissionsQCurves c ! trial) (fst rIter) = Some q \<and>
        map_of (mEmissionsTCurves c ! trial) (fst rIter) = Some t \<and>
        (getY ops (snd rIter) (of_int year) - getY ops q (of_int year), getY ops t (of_int year)) \<in> set pts"
  proof (intro allI impI)
    fix trial assume "trial \<le> mNumPoints c"
    then have "trial < mNumPoints c + 1" by simp
    with L obtain pt where "trialPoint ops c year rIter trial = Inr pt" "pt \<in> set pts" by blast
    then show "\<exists>q t.
        map_of (mEmissionsQCurves c ! trial) (fst rIter) = Some q \<and>
        map_of (mEmissionsTCurves c ! trial) (fst rIter) = Some t \<and>
        (getY ops (snd rIter) (of_int year) - getY ops q (of_int year), getY ops t (of_int year)) \<in> set pts"
      by (auto simp: trialPoint_Inr)
  qed
  have b: "\<forall>pt\<in>set pts. \<exists>trial\<le>mNumPoints c. \<exists>q t.
        map_of (mEmissionsQCurves c ! trial) (fst rIter) = Some q \<and>
        map_of (mEmissionsTCurves c ! trial) (fst rIter) = Some t \<and>
        pt = (getY ops (snd rIter) (of_int year) - getY ops q (of_int year), getY ops t (of_int year))"
  proof
    fix pt assume "pt \<in> set pts"
    with L obtain trial where t: "trial < mNumPoints c + 1" and "trialPoint ops c year rIter trial = Inr pt"
      by blast
    then obtain q tx where "map_of (mEmissionsQCurves c ! trial) (fst rIter) = Some q"
      "map_of (mEmissionsTCurves c ! trial) (fst rIter) = Some tx"
      "pt = (getY ops (snd rIter) (of_int year) - getY ops q (of_int year), getY ops tx (of_int year))"
      by (auto simp: trialPoint_Inr)
    moreover from t have "trial \<le> mNumPoints c" by simp
    ultimately show "\<exists>trial\<le>mNumPoints c. \<exists>q t.
        map_of (mEmissionsQCurves c ! trial) (fst rIter) = Some q \<and>
        map_of (mEmissionsTCurves c ! trial) (fst rIter) = Some t \<and>
        pt = (getY ops (snd rIter) (of_int year) - getY ops q (of_int year), getY ops t (of_int year))"
      by blast
  qed
  from L have "length pts = mNumPoints c + 1" "xsorted pts" by simp_all
  with a b show ?thesis by (simp add: pts) (simp add: crv PointSetCurve_def)
qed

lemma periodCurves_lookup:
  assumes pc: "periodCurves ops c modeltime per = Inr crvs"
      and d: "distinct (map fst (mEmissionsQCurves c ! 0))"
      and r: "map_of (mEmissionsQCurves c ! 0) region = Some crv0"
  shows "\<exists>crv. perCostCurve ops c (getper_to_yr modeltime per) per (region, crv0) = Inr crv \<and>
           map_of (setAll (map fst (mEmissionsQCurves c ! 0)) crvs m) region = Some crv"
proof -
  let ?regions = "mEmissionsQCurves c ! 0"
  let ?f = "perCostCurve ops c (getper_to_yr modeltime per) per"
  let ?g = "\<lambda>k. projr (?f (k, the (map_of ?regions k)))"
  from pc have em: "emap ?f ?regions = Inr crvs"
    by (simp add: periodCurves_def split: if_splits)
  note E = emap_Inr [OF em]
  have "map (\<lambda>x. projr (?f x)) ?regions = map (\<lambda>x. ?g (fst x)) ?regions"
  proof (rule map_cong [OF refl])
    fix x assume "x \<in> set ?regions"
    then have "map_of ?regions (fst x) = Some (snd x)" using d by simp
    then show "projr (?f x) = ?g (fst x)" by simp
  qed
  with E have crvs: "crvs = map ?g (map fst ?regions)" by (simp add: comp_def)
  from r have mem: "(region, crv0) \<in> set ?regions" by (rule map_of_SomeD)
  then have k: "region \<in> set (map fst ?regions)" by force
  have "map_of (setAll (map fst ?regions) crvs m) region = Some (?g region)"
    unfolding crvs using k by (rule map_of_setAll_map)
  moreover have "?f (region, crv0) = Inr (?g region)"
    using E mem r by simp
  ultimately show ?thesis by blast
qed

lemma createCostCurvesByPeriod_Inr:
  assumes "createCostCurvesByPeriod F ops c = Inr c'"
  shows "\<exists>crvss. emap (periodCurves ops c (getModeltime F)) [0..<getmaxper (getModeltime F)] = Inr crvss \<and>
     c' = c\<lparr>mPeriodCostCurves :=
           map (\<lambda>per. setAll (map fst (mEmissionsQCurves c ! 0)) (crvss ! per)
                        (resize (getmaxper (getModeltime F)) [] (mPeriodCostCurves c) ! per))
             [0..<getmaxper (getModeltime F)]\<rparr>"
  using assms
  by (cases "emap (periodCurves ops c (getModeltime F)) [0..<getmaxper (getModeltime F)]")
    (simp_all add: createCostCurvesByPeriod_eq)

section \<open>The regional loop\<close>

lemma regionalCosts_eq:
  "regionalCosts F ops conf region c =
     (if region = ''global'' then Inr c
      else ebind (regionEntry F ops conf (mPeriodCostCurves c) region) (\<lambda>e.
        Inr (c\<lparr>mRegionalCostCurves := map_set region (fst e) (mRegionalCostCurves c),
               mRegionalCosts := map_set region (fst (snd e)) (mRegionalCosts c),
               mRegionalDiscountedCosts := map_set region (snd (snd e)) (mRegionalDiscountedCosts c),
               mGlobalCost := mGlobalCost c + fst (snd e),
               mGlobalDiscountedCost := mGlobalDiscountedCost c + snd (snd e)\<rparr>)))"
  by (cases "costPoints ops (getModeltime F) (mPeriodCostCurves c) region")
    (simp_all add: regionalCosts_def regionEntry_def Let_def)

lemma regions_loop:
  "efold (regionalCosts F ops conf) regions c =
     ebind (emap (regionEntry F ops conf (mPeriodCostCurves c)) (notGlobal regions)) (\<lambda>es.
       Inr (c\<lparr>mRegionalCostCurves := setAll (notGlobal regions) (map fst es) (mRegionalCostCurves c),
              mRegionalCosts := setAll (notGlobal regions) (map (\<lambda>e. fst (snd e)) es) (mRegionalCosts c),
              mRegionalDiscountedCosts :=
                 setAll (notGlobal regions) (map (\<lambda>e. snd (snd e)) es) (mRegionalDiscountedCosts c),
              mGlobalCost := mGlobalCost c + sum_list (map (\<lambda>e. fst (snd e)) es),
              mGlobalDiscountedCost := mGlobalDiscountedCost c + sum_list (map (\<lambda>e. snd (snd e)) es)\<rparr>))"
proof (induction regions arbitrary: c)
  case Nil
  show ?case by (simp add: notGlobal_def setAll_def)
next
  case (Cons r regions)
  show ?case
  proof (cases "r = ''global''")
    case True
    then show ?thesis using Cons.IH [of c] by (simp add: regionalCosts_eq notGlobal_def)
  next
    case False
    show ?thesis
    proof (cases "regionEntry F ops conf (mPeriodCostCurves c) r")
      case (Inl e)
      with False show ?thesis by (simp add: regionalCosts_eq notGlobal_def)
    next
      case (Inr e)
      let ?c1 = "c\<lparr>mRegionalCostCurves := map_set r (fst e) (mRegionalCostCurves c),
               mRegionalCosts := map_set r (fst (snd e)) (mRegionalCosts c),
               mRegionalDiscountedCosts := map_set r (snd (snd e)) (mRegionalDiscountedCosts c),
               mGlobalCost := mGlobalCost c + fst (snd e),
               mGlobalDiscountedCost := mGlobalDiscountedCost c + snd (snd e)\<rparr>"
      have step: "regionalCosts F ops conf r c = Inr ?c1"
        using False Inr by (simp add: regionalCosts_eq)
      show ?thesis
      proof (cases "emap (regionEntry F ops conf (mPeriodCostCurves c)) (notGlobal regions)")
        case (Inl e')
        with False Inr step Cons.IH [of ?c1] show ?thesis by (simp add: notGlobal_def)
      next
        case es: (Inr es)
        with False Inr step Cons.IH [of ?c1] show ?thesis
          by (simp add: notGlobal_def setAll_def add.assoc)
      qed
    qed
  qed
qed

lemma createRegionalCostCurves_Inr:
  assumes "createRegionalCostCurves F ops conf c = Inr c'"
  shows "mPeriodCostCurves c \<noteq> [] \<and>
     (\<exists>es. emap (regionEntry F ops conf (mPeriodCostCurves c)) (notGlobal (map fst (mPeriodCostCurves c ! 0))) = Inr es \<and>
       c' = c\<lparr>mRegionalCostCurves :=
                 setAll (notGlobal (map fst (mPeriodCostCurves c ! 0))) (map fst es) (mRegionalCostCurves c),
              mRegionalCosts :=
                 setAll (notGlobal (map fst (mPeriodCostCurves c ! 0))) (map (\<lambda>e. fst (snd e)) es) (mRegionalCosts c),
              mRegionalDiscountedCosts :=
                 setAll (notGlobal (map fst (mPeriodCostCurves c ! 0))) (map (\<lambda>e. snd (snd e)) es)
                   (mRegionalDiscountedCosts c),
              mGlobalCost := mGlobalCost c + sum_list (map (\<lambda>e. fst (snd e)) es),
              mGlobalDiscountedCost := mGlobalDiscountedCost c + sum_list (map (\<lambda>e. snd (snd e)) es)\<rparr>)"
  using assms
  by (cases "emap (regionEntry F ops conf (mPeriodCostCurves c)) (notGlobal (map fst (mPeriodCostCurves c ! 0)))")
    (simp_all add: createRegionalCostCurves_def regions_loop split: if_splits)





section \<open>The entry point\<close>

lemma calculate_Inr:
  assumes ok: "calculateAbatementCostCurve F ops conf c s = Inr (success, c', s', tr)"
      and market: "getPrice F s (mGHGName c) ''USA'' 1 \<noteq> NO_MARKET_PRICE F"
  shows "\<exists>c4 c5.
     createCostCurvesByPeriod F ops
       (c\<lparr>mEmissionsQCurves := sweepQCurves F ops (mGHGName c) (mNumPoints c) s,
          mEmissionsTCurves := sweepTCurves F ops (mGHGName c) (mNumPoints c) s\<rparr>) = Inr c4 \<and>
     createRegionalCostCurves F ops conf c4 = Inr c5 \<and>
     c' = c5\<lparr>mRanCosts := True\<rparr> \<and>
     success = (\<forall>t<mNumPoints c. trialFlag F ops (mGHGName c) (mNumPoints c) (getEmissionsPriceCurves F s (mGHGName c)) s t) \<and>
     s' = sweepState F ops (mGHGName c) (mNumPoints c) (getEmissionsPriceCurves F s (mGHGName c)) s (mNumPoints c) \<and>
     tr = concat (map (trialEvents F ops (mGHGName c) (mNumPoints c) (getEmissionsPriceCurves F s (mGHGName c)) s)
                    [0..<mNumPoints c])"
  using ok market
  by (simp add: calculateAbatementCostCurve_def runTrials_storePrimaryRun ebind_Inr_iff) blast

lemma createCostCurvesByPeriod_fields:
  assumes "createCostCurvesByPeriod F ops c = Inr c'"
  shows "\<exists>P. c' = c\<lparr>mPeriodCostCurves := P\<rparr>"
  using createCostCurvesByPeriod_Inr [OF assms] by blast

lemma createRegionalCostCurves_fields:
  assumes "createRegionalCostCurves F ops conf c = Inr c'"
  shows "mEmissionsQCurves c' = mEmissionsQCurves c \<and> mEmissionsTCurves c' = mEmissionsTCurves c \<and>
     mPeriodCostCurves c' = mPeriodCostCurves c \<and> mNumPoints c' = mNumPoints c \<and> mGHGName c' = mGHGName c \<and>
     mRanCosts c' = mRanCosts c"
  using createRegionalCostCurves_Inr [OF assms] by auto

lemma calculate_fields:
  assumes ok: "calculateAbatementCostCurve F ops conf c s = Inr (success, c', s', tr)"
      and market: "getPrice F s (mGHGName c) ''USA'' 1 \<noteq> NO_MARKET_PRICE F"
  shows "mEmissionsQCurves c' = sweepQCurves F ops (mGHGName c) (mNumPoints c) s \<and>
     mEmissionsTCurves c' = sweepTCurves F ops (mGHGName c) (mNumPoints c) s \<and>
     mNumPoints c' = mNumPoints c \<and> mGHGName c' = mGHGName c \<and> mRanCosts c'"
proof -
  from calculate_Inr [OF ok market] obtain c4 c5 where
    4: "createCostCurvesByPeriod F ops
       (c\<lparr>mEmissionsQCurves := sweepQCurves F ops (mGHGName c) (mNumPoints c) s,
          mEmissionsTCurves := sweepTCurves F ops (mGHGName c) (mNumPoints c) s\<rparr>) = Inr c4"
    and 5: "createRegionalCostCurves F ops conf c4 = Inr c5"
    and c': "c' = c5\<lparr>mRanCosts := True\<rparr>"
    by blast
  from createCostCurvesByPeriod_fields [OF 4] obtain P where
    "c4 = c\<lparr>mEmissionsQCurves := sweepQCurves F ops (mGHGName c) (mNumPoints c) s,
          mEmissionsTCurves := sweepTCurves F ops (mGHGName c) (mNumPoints c) s, mPeriodCostCurves := P\<rparr>"
    by auto
  with createRegionalCostCurves_fields [OF 5] show ?thesis by (simp add: c')
qed

lemma trialEvents_not_skip:
  "concat (map (trialEvents F ops gas N base s) [0..<k]) \<noteq> [Log m]"
proof (cases k)
  case 0
  then show ?thesis by simp
next
  case (Suc j)
  have "2 \<le> length (trialEvents F ops gas N base s j)" by (simp add: trialEvents_def)
  then have "2 \<le> length (concat (map (trialEvents F ops gas N base s) [0..<k]))"
    by (simp add: Suc)
  then show ?thesis by auto
qed

lemma sweepQCurves_nth:
  "t < N \<Longrightarrow> sweepQCurves F ops gas N s ! t =
      getEmissionsQuantityCurves F (sweepState F ops gas N (getEmissionsPriceCurves F s gas) s (Suc t)) gas"
  "sweepQCurves F ops gas N s ! N = getEmissionsQuantityCurves F s gas"
  by (simp_all add: sweepQCurves_def nth_append)

lemma sweepTCurves_nth:
  "t < N \<Longrightarrow> sweepTCurves F ops gas N s ! t =
      getEmissionsPriceCurves F (sweepState F ops gas N (getEmissionsPriceCurves F s gas) s (Suc t)) gas"
  "sweepTCurves F ops gas N s ! N = getEmissionsPriceCurves F s gas"
  by (simp_all add: sweepTCurves_def nth_append)

lemma filter_isRun_trialEvents:
  "filter isRun (concat (map (trialEvents F ops gas N base s) ts))
     = map (\<lambda>t. Run RUN_ALL_PERIODS True (toString t) (trialFlag F ops gas N base s t)) ts"
proof (induction ts)
  case Nil
  show ?case by simp
next
  case (Cons t ts)
  have "filter isRun (map (\<lambda>rIter. SetTax (regionTax ops (getModeltime F) gas (real t / real N) rIter)) base) = []"
    by (induction base) simp_all
  with Cons.IH show ?case by (simp add: trialEvents_def)
qed








section \<open>The small scenario, evaluated\<close>

lemma demo_new:
  "TotalPolicyCostCalculator demoConf =
     \<lparr>mGHGName = ''CO2'', mNumPoints = 2, mRanCosts = False, mGlobalCost = 0, mGlobalDiscountedCost = 0,
      mEmissionsQCurves = [], mEmissionsTCurves = [], mPeriodCostCurves = [],
      mRegionalCostCurves = [], mRegionalCosts = [], mRegionalDiscountedCosts = []\<rparr>"
  by (simp add: TotalPolicyCostCalculator_def demoConf_def getString_def getInt_def)

lemma list_update_2: "(x # y # z # zs)[2 := v] = x # y # v # zs" "(x # y # zs)[1 := v] = x # v # zs"
  by (simp_all add: numeral_2_eq_2)

lemma resize_demo: "resize 3 [] [] = [[], [], []]" "resize 2 [] [] = [[], []]"
  by (simp_all add: resize_def numeral_3_eq_3 numeral_2_eq_2)

lemma upt_demo: "[0..<2] = [0, 1]" "[0..<3] = [0, 1, 2]" "[0..<2 + 1] = [0, 1, 2]"
  by (simp_all add: upt_rec)

lemma toString_demo: "toString 0 = ''0''" "toString (Suc 0) = ''1''" "toString 1 = ''1''"
  by (simp_all add: toString.simps digit_def)

lemma demo_runTrials:
  "runTrials (demoScenario failing) demoOps
     (storePrimaryRun (demoScenario failing) (TotalPolicyCostCalculator demoConf) demoState) demoState
   = Inr (''0'' \<notin> set failing \<and> ''1'' \<notin> set failing, demoSwept, demoEnd, demoTrace failing)"
  by (simp add: demo_new runTrials_def storePrimaryRun_def upt_demo list_update_2 runTrial_def Let_def resize_demo
      demoScenario_def demoState_def demoOps_def demoCurve_def PointSetCurve_def toString_demo regionTax_def
      currTaxes_def demoTime_def startMessage_def demoSwept_def demoEnd_def demoTrace_def demoQ_def demoT_def)

lemma demo_periods:
  "createCostCurvesByPeriod (demoScenario failing) demoOps demoSwept = Inr (demoSwept\<lparr>mPeriodCostCurves := demoP\<rparr>)"
  by (simp add: createCostCurvesByPeriod_def periodRegions_def perCostCurve_def trialPoints_def trialPoint_def
      curveAt_def upt_demo list_update_2 Let_def resize_demo ebind_def
      demoScenario_def demoOps_def demoCurve_def PointSetCurve_def demoTime_def demoSwept_def
      demoQ_def demoT_def demoP_def demoPerCurve_def)

lemma demo_regional:
  "createRegionalCostCurves (demoScenario failing) demoOps demoConf (demoSwept\<lparr>mPeriodCostCurves := demoP\<rparr>)
     = Inr (demoDone\<lparr>mRanCosts := False\<rparr>)"
  by (simp add: createRegionalCostCurves_def regionalCosts_def costPoints_def curveAt_def upt_demo Let_def ebind_def
      getDouble_def getInt_def demoConf_def
      demoScenario_def demoOps_def PointSetCurve_def demoTime_def demoSwept_def demoDone_def
      demoQ_def demoT_def demoP_def demoPerCurve_def demoRegCurve_def)

lemma demo_market:
  "getPrice (demoScenario failing) demoState ''CO2'' ''USA'' 1 \<noteq> NO_MARKET_PRICE (demoScenario failing)"
  by (simp add: demoScenario_def demoState_def)

lemma demo_calculate:
  "calculateAbatementCostCurve (demoScenario failing) demoOps demoConf (TotalPolicyCostCalculator demoConf) demoState
     = Inr (''0'' \<notin> set failing \<and> ''1'' \<notin> set failing, demoDone, demoEnd, demoTrace failing)"
proof -
  have g: "mGHGName (TotalPolicyCostCalculator demoConf) = ''CO2''" by (simp add: demo_new)
  have d: "demoDone\<lparr>mRanCosts := False, mRanCosts := True\<rparr> = demoDone" by (simp add: demoDone_def)
  show ?thesis
    using demo_market [of failing]
    by (simp add: calculateAbatementCostCurve_def g demo_runTrials demo_periods demo_regional d)
qed





section \<open>The properties\<close>

subsection \<open>The cost curves by period\<close>

text \<open>
  C1, as amended. The code measures the reduction against the quantity curve of trial 0, the
  run without a tax, and iterates over the regions of the map of trial 0; the map of the
  primary run, at index \<open>N\<close>, is one trial among the others. When
  \<open>createCostCurvesByPeriod\<close> completes, then for every period \<open>per\<close> and every
  region of the map of trial 0 (its keys are distinct, as those of a \<open>std::map\<close> are)
  the map of the period holds a curve for the region with exactly \<open>N + 1\<close> points: for
  every trial \<open>t\<close> from 0 to \<open>N\<close> the point whose x is the quantity of trial 0 less the
  quantity of trial \<open>t\<close> and whose y is the tax of trial \<open>t\<close>, all at the year of the
  period, and no other point; and the points ascend strictly in x.
\<close>

theorem createCostCurvesByPeriod_points:
  assumes ok: "createCostCurvesByPeriod F ops c = Inr c'"
      and per: "per < getmaxper (getModeltime F)"
      and d: "distinct (map fst (mEmissionsQCurves c ! 0))"
      and r: "map_of (mEmissionsQCurves c ! 0) region = Some crv0"
  shows "\<exists>crv. map_of (mPeriodCostCurves c' ! per) region = Some crv \<and>
     length (points crv) = mNumPoints c + 1 \<and>
     (\<forall>trial\<le>mNumPoints c. \<exists>q t.
        map_of (mEmissionsQCurves c ! trial) region = Some q \<and>
        map_of (mEmissionsTCurves c ! trial) region = Some t \<and>
        (getY ops crv0 (of_int (getper_to_yr (getModeltime F) per))
           - getY ops q (of_int (getper_to_yr (getModeltime F) per)),
         getY ops t (of_int (getper_to_yr (getModeltime F) per))) \<in> set (points crv)) \<and>
     (\<forall>pt\<in>set (points crv). \<exists>trial\<le>mNumPoints c. \<exists>q t.
        map_of (mEmissionsQCurves c ! trial) region = Some q \<and>
        map_of (mEmissionsTCurves c ! trial) region = Some t \<and>
        pt = (getY ops crv0 (of_int (getper_to_yr (getModeltime F) per))
                - getY ops q (of_int (getper_to_yr (getModeltime F) per)),
              getY ops t (of_int (getper_to_yr (getModeltime F) per)))) \<and>
     sorted_wrt (\<lambda>a b. fst a < fst b) (points crv)"
proof -
  let ?mt = "getModeltime F"
  from createCostCurvesByPeriod_Inr [OF ok] obtain crvss where
    em: "emap (periodCurves ops c ?mt) [0..<getmaxper ?mt] = Inr crvss"
    and c': "c' = c\<lparr>mPeriodCostCurves :=
           map (\<lambda>per. setAll (map fst (mEmissionsQCurves c ! 0)) (crvss ! per)
                        (resize (getmaxper ?mt) [] (mPeriodCostCurves c) ! per))
             [0..<getmaxper ?mt]\<rparr>"
    by blast
  from emap_Inr [OF em] per have pc: "periodCurves ops c ?mt per = Inr (crvss ! per)"
    by simp
  have P: "mPeriodCostCurves c' ! per = setAll (map fst (mEmissionsQCurves c ! 0)) (crvss ! per)
                        (resize (getmaxper ?mt) [] (mPeriodCostCurves c) ! per)"
    using per by (simp add: c')
  from periodCurves_lookup [OF pc d r] obtain crv where
    crv: "perCostCurve ops c (getper_to_yr ?mt per) per (region, crv0) = Inr crv"
    and look: "map_of (mPeriodCostCurves c' ! per) region = Some crv"
    unfolding P by blast
  from perCostCurve_Inr [OF crv] look show ?thesis
    by (simp add: xsorted_def)
qed

text \<open>
  In the small scenario the curve of the first period for the region USA has the points
  (0, 0), (10, 5) and (20, 10).
\<close>

theorem createCostCurvesByPeriod_points_witness:
  "createCostCurvesByPeriod (demoScenario []) demoOps demoSwept = Inr (demoSwept\<lparr>mPeriodCostCurves := demoP\<rparr>) \<and>
   (0::nat) < getmaxper (getModeltime (demoScenario [])) \<and>
   distinct (map fst (mEmissionsQCurves demoSwept ! 0)) \<and>
   map_of (mEmissionsQCurves demoSwept ! 0) ''USA'' = Some (demoCurve [100, 100]) \<and>
   map_of (mPeriodCostCurves (demoSwept\<lparr>mPeriodCostCurves := demoP\<rparr>) ! 0) ''USA''
     = Some (demoPerCurve ''USA'' 0 [(0, 0), (10, 5), (20, 10)]) \<and>
   (\<exists>crv. map_of (mPeriodCostCurves (demoSwept\<lparr>mPeriodCostCurves := demoP\<rparr>) ! 0) ''USA'' = Some crv \<and>
     length (points crv) = mNumPoints demoSwept + 1 \<and>
     (\<forall>trial\<le>mNumPoints demoSwept. \<exists>q t.
        map_of (mEmissionsQCurves demoSwept ! trial) ''USA'' = Some q \<and>
        map_of (mEmissionsTCurves demoSwept ! trial) ''USA'' = Some t \<and>
        (getY demoOps (demoCurve [100, 100]) (of_int (getper_to_yr (getModeltime (demoScenario [])) 0))
           - getY demoOps q (of_int (getper_to_yr (getModeltime (demoScenario [])) 0)),
         getY demoOps t (of_int (getper_to_yr (getModeltime (demoScenario [])) 0))) \<in> set (points crv)) \<and>
     (\<forall>pt\<in>set (points crv). \<exists>trial\<le>mNumPoints demoSwept. \<exists>q t.
        map_of (mEmissionsQCurves demoSwept ! trial) ''USA'' = Some q \<and>
        map_of (mEmissionsTCurves demoSwept ! trial) ''USA'' = Some t \<and>
        pt = (getY demoOps (demoCurve [100, 100]) (of_int (getper_to_yr (getModeltime (demoScenario [])) 0))
                - getY demoOps q (of_int (getper_to_yr (getModeltime (demoScenario [])) 0)),
              getY demoOps t (of_int (getper_to_yr (getModeltime (demoScenario [])) 0)))) \<and>
     sorted_wrt (\<lambda>a b. fst a < fst b) (points crv))"
proof -
  have h1: "createCostCurvesByPeriod (demoScenario []) demoOps demoSwept = Inr (demoSwept\<lparr>mPeriodCostCurves := demoP\<rparr>)"
    by (rule demo_periods)
  have h2: "(0::nat) < getmaxper (getModeltime (demoScenario []))"
    by (simp add: demoScenario_def demoTime_def)
  have h3: "distinct (map fst (mEmissionsQCurves demoSwept ! 0))"
    by (simp add: demoSwept_def demoQ_def)
  have h4: "map_of (mEmissionsQCurves demoSwept ! 0) ''USA'' = Some (demoCurve [100, 100])"
    by (simp add: demoSwept_def demoQ_def)
  have h5: "map_of (mPeriodCostCurves (demoSwept\<lparr>mPeriodCostCurves := demoP\<rparr>) ! 0) ''USA''
     = Some (demoPerCurve ''USA'' 0 [(0, 0), (10, 5), (20, 10)])"
    by (simp add: demoP_def)
  from h1 h2 h3 h4 h5 createCostCurvesByPeriod_points [OF h1 h2 h3 h4]
  show ?thesis by (intro conjI) assumption+
qed

text \<open>
  C1 as the specification states it fails in the small scenario: the quantity of the primary
  run (trial 2) less the quantity of trial 0 is 80 - 100 for the region USA in 2005, and the
  point (-20, 0) that the specification gives trial 0 is not a point of the curve built.
\<close>

theorem createCostCurvesByPeriod_baseline_counterexample:
  "runTrials (demoScenario []) demoOps
     (storePrimaryRun (demoScenario []) (TotalPolicyCostCalculator demoConf) demoState) demoState
     = Inr (True, demoSwept, demoEnd, demoTrace []) \<and>
   createCostCurvesByPeriod (demoScenario []) demoOps demoSwept = Inr (demoSwept\<lparr>mPeriodCostCurves := demoP\<rparr>) \<and>
   map_of (mPeriodCostCurves (demoSwept\<lparr>mPeriodCostCurves := demoP\<rparr>) ! 0) ''USA''
     = Some (demoPerCurve ''USA'' 0 [(0, 0), (10, 5), (20, 10)]) \<and>
   mNumPoints demoSwept = 2 \<and>
   map_of (mEmissionsQCurves demoSwept ! 2) ''USA'' = Some (demoCurve [80, 60]) \<and>
   map_of (mEmissionsQCurves demoSwept ! 0) ''USA'' = Some (demoCurve [100, 100]) \<and>
   map_of (mEmissionsTCurves demoSwept ! 0) ''USA'' = Some (demoCurve [0, 0]) \<and>
   (getY demoOps (demoCurve [80, 60]) (of_int (getper_to_yr (getModeltime (demoScenario [])) 0))
      - getY demoOps (demoCurve [100, 100]) (of_int (getper_to_yr (getModeltime (demoScenario [])) 0)),
    getY demoOps (demoCurve [0, 0]) (of_int (getper_to_yr (getModeltime (demoScenario [])) 0)))
     \<notin> set (points (demoPerCurve ''USA'' 0 [(0, 0), (10, 5), (20, 10)]))"
proof -
  have "runTrials (demoScenario []) demoOps
     (storePrimaryRun (demoScenario []) (TotalPolicyCostCalculator demoConf) demoState) demoState
     = Inr (True, demoSwept, demoEnd, demoTrace [])"
    using demo_runTrials [of "[]"] by simp
  moreover have "createCostCurvesByPeriod (demoScenario []) demoOps demoSwept = Inr (demoSwept\<lparr>mPeriodCostCurves := demoP\<rparr>)"
    by (rule demo_periods)
  ultimately show ?thesis
    by (simp add: demoSwept_def demoQ_def demoT_def demoP_def demoPerCurve_def demoCurve_def PointSetCurve_def
        demoOps_def demoScenario_def demoTime_def)
qed

subsection \<open>The sweep\<close>

text \<open>
  C2. The sweep that follows the storing of the primary run always completes, for every
  number of points \<open>N\<close>. What it does to the world outside is, for each trial \<open>t\<close> from
  0 to \<open>N - 1\<close> in this order: one tax for each region of the tax curves of the primary run,
  whose tax of each period is \<open>t / N\<close> times the tax of the region's curve at the year of the
  period; then the line of the log; then one run of all periods with the tag \<open>t\<close>. Nothing
  else is run: the primary run is not repeated. Its curves are at index \<open>N\<close> of the two
  vectors before the sweep and after it.
\<close>

theorem runTrials_sweep:
  "\<exists>success c3 s3.
     runTrials F ops (storePrimaryRun F c s) s =
       Inr (success, c3, s3,
            concat (map (\<lambda>t.
               map (\<lambda>rIter. SetTax
                     \<lparr>policyGas = mGHGName c, policyRegion = fst rIter,
                      policyTaxes =
                        map (\<lambda>per. real t / real (mNumPoints c)
                                    * getY ops (snd rIter) (of_int (getper_to_yr (getModeltime F) per)))
                          [0..<getmaxper (getModeltime F)]\<rparr>)
                 (getEmissionsPriceCurves F s (mGHGName c))
               @ [Log (startMessage t),
                  Run RUN_ALL_PERIODS True (toString t)
                    (trialFlag F ops (mGHGName c) (mNumPoints c) (getEmissionsPriceCurves F s (mGHGName c)) s t)])
             [0..<mNumPoints c]))
     \<and> mEmissionsQCurves (storePrimaryRun F c s) ! mNumPoints c = getEmissionsQuantityCurves F s (mGHGName c)
     \<and> mEmissionsTCurves (storePrimaryRun F c s) ! mNumPoints c = getEmissionsPriceCurves F s (mGHGName c)
     \<and> mEmissionsQCurves c3 ! mNumPoints c = getEmissionsQuantityCurves F s (mGHGName c)
     \<and> mEmissionsTCurves c3 ! mNumPoints c = getEmissionsPriceCurves F s (mGHGName c)"
proof -
  have ev: "trialEvents F ops (mGHGName c) (mNumPoints c) (getEmissionsPriceCurves F s (mGHGName c)) s
    = (\<lambda>t. map (\<lambda>rIter. SetTax
                     \<lparr>policyGas = mGHGName c, policyRegion = fst rIter,
                      policyTaxes =
                        map (\<lambda>per. real t / real (mNumPoints c)
                                    * getY ops (snd rIter) (of_int (getper_to_yr (getModeltime F) per)))
                          [0..<getmaxper (getModeltime F)]\<rparr>)
                 (getEmissionsPriceCurves F s (mGHGName c))
               @ [Log (startMessage t),
                  Run RUN_ALL_PERIODS True (toString t)
                    (trialFlag F ops (mGHGName c) (mNumPoints c) (getEmissionsPriceCurves F s (mGHGName c)) s t)])"
    by (simp add: trialEvents_def regionTax_def currTaxes_def fun_eq_iff mult.commute)
  show ?thesis
    unfolding runTrials_storePrimaryRun ev [symmetric]
    by (simp add: sweepQCurves_nth sweepTCurves_nth storePrimaryRun_eq)
qed

text \<open>
  In the small scenario the sweep runs the tags 0 and 1, after the taxes 0 and half the
  taxes of the primary run.
\<close>

theorem runTrials_sweep_witness:
  "runTrials (demoScenario []) demoOps
     (storePrimaryRun (demoScenario []) (TotalPolicyCostCalculator demoConf) demoState) demoState
     = Inr (True, demoSwept, demoEnd, demoTrace []) \<and>
   demoTrace [] =
     concat (map (\<lambda>t.
        map (\<lambda>rIter. SetTax
              \<lparr>policyGas = mGHGName (TotalPolicyCostCalculator demoConf), policyRegion = fst rIter,
               policyTaxes =
                 map (\<lambda>per. real t / real (mNumPoints (TotalPolicyCostCalculator demoConf))
                             * getY demoOps (snd rIter) (of_int (getper_to_yr (getModeltime (demoScenario [])) per)))
                   [0..<getmaxper (getModeltime (demoScenario []))]\<rparr>)
          (getEmissionsPriceCurves (demoScenario []) demoState (mGHGName (TotalPolicyCostCalculator demoConf)))
        @ [Log (startMessage t),
           Run RUN_ALL_PERIODS True (toString t)
             (trialFlag (demoScenario []) demoOps (mGHGName (TotalPolicyCostCalculator demoConf))
                (mNumPoints (TotalPolicyCostCalculator demoConf))
                (getEmissionsPriceCurves (demoScenario []) demoState (mGHGName (TotalPolicyCostCalculator demoConf)))
                demoState t)])
      [0..<mNumPoints (TotalPolicyCostCalculator demoConf)]) \<and>
   mEmissionsQCurves demoSwept ! mNumPoints (TotalPolicyCostCalculator demoConf)
     = getEmissionsQuantityCurves (demoScenario []) demoState (mGHGName (TotalPolicyCostCalculator demoConf)) \<and>
   mEmissionsTCurves demoSwept ! mNumPoints (TotalPolicyCostCalculator demoConf)
     = getEmissionsPriceCurves (demoScenario []) demoState (mGHGName (TotalPolicyCostCalculator demoConf)) \<and>
   mNumPoints (TotalPolicyCostCalculator demoConf) = 2 \<and>
   filter isRun (demoTrace []) = [Run RUN_ALL_PERIODS True ''0'' True, Run RUN_ALL_PERIODS True ''1'' True]"
  (is "?run \<and> demoTrace [] = ?E \<and> ?q \<and> ?t \<and> ?n \<and> ?f")
proof -
  have run: ?run
    using demo_runTrials [of "[]"] by simp
  from runTrials_sweep [of "demoScenario []" demoOps "TotalPolicyCostCalculator demoConf" demoState]
  obtain success c3 s3 where
    a: "runTrials (demoScenario []) demoOps
          (storePrimaryRun (demoScenario []) (TotalPolicyCostCalculator demoConf) demoState) demoState
        = Inr (success, c3, s3, ?E)"
    and q: "mEmissionsQCurves c3 ! mNumPoints (TotalPolicyCostCalculator demoConf)
     = getEmissionsQuantityCurves (demoScenario []) demoState (mGHGName (TotalPolicyCostCalculator demoConf))"
    and t: "mEmissionsTCurves c3 ! mNumPoints (TotalPolicyCostCalculator demoConf)
     = getEmissionsPriceCurves (demoScenario []) demoState (mGHGName (TotalPolicyCostCalculator demoConf))"
    by (elim exE conjE) (rule that; assumption)
  from a [unfolded run] have e: "True = success \<and> demoSwept = c3 \<and> demoEnd = s3 \<and> demoTrace [] = ?E"
    by (simp only: sum.inject prod.inject)
  from e have c3: "c3 = demoSwept" by (elim conjE) (rule sym)
  from e have tr: "demoTrace [] = ?E" by (elim conjE)
  have n: ?n by (simp add: demo_new)
  have f: ?f by (simp add: demoTrace_def)
  from run tr q [unfolded c3] t [unfolded c3] n f show ?thesis
    by (intro conjI)
qed

subsection \<open>No policy market\<close>

text \<open>
  C3. When the price of the gas in the region USA at period 1 is the price of no market,
  \<open>calculateAbatementCostCurve\<close> returns true, leaves the calculator and the scenario as
  they are, runs nothing and writes one line to the log. \<open>printOutput\<close> then writes
  nothing, since the flag \<open>mRanCosts\<close> is still false, as the constructor set it.
\<close>

theorem calculateAbatementCostCurve_no_market:
  assumes "getPrice F s (mGHGName c) ''USA'' 1 = NO_MARKET_PRICE F"
  shows "calculateAbatementCostCurve F ops conf c s = Inr (True, c, s, [Log skipMessage]) \<and>
         filter isRun [Log skipMessage] = [] \<and>
         (\<not> mRanCosts c \<longrightarrow> printOutput xmlString useXMLDB c = []) \<and>
         \<not> mRanCosts (TotalPolicyCostCalculator conf)"
  using assms by (simp add: calculateAbatementCostCurve_def printOutput_def TotalPolicyCostCalculator_def)

text \<open>
  A new calculator on a scenario without the region USA.
\<close>

theorem calculateAbatementCostCurve_no_market_witness:
  "getPrice (demoScenario []) demoNoUSA (mGHGName (TotalPolicyCostCalculator demoConf)) ''USA'' 1
     = NO_MARKET_PRICE (demoScenario []) \<and>
   calculateAbatementCostCurve (demoScenario []) demoOps demoConf (TotalPolicyCostCalculator demoConf) demoNoUSA
     = Inr (True, TotalPolicyCostCalculator demoConf, demoNoUSA, [Log skipMessage]) \<and>
   printOutput (\<lambda>c. ''<CostCurvesInfo/>'') False (TotalPolicyCostCalculator demoConf) = []"
proof -
  have h: "getPrice (demoScenario []) demoNoUSA (mGHGName (TotalPolicyCostCalculator demoConf)) ''USA'' 1
     = NO_MARKET_PRICE (demoScenario [])"
    by (simp add: demoScenario_def demoNoUSA_def)
  from calculateAbatementCostCurve_no_market [OF h, of demoOps demoConf "\<lambda>c. ''<CostCurvesInfo/>''" False] h
  show ?thesis by simp
qed

subsection \<open>Trials that fail\<close>

text \<open>
  C4. The sweep that follows the storing of the primary run always completes, whatever the
  flags of its runs are: the runs among its events are those of the trials 0 to \<open>N - 1\<close>
  in this order, each with the flag it returned; the flag of the sweep is the conjunction of
  these flags; and the curves stored at the index of every trial are the curves of the
  scenario in its state after the run of that trial, failed or not. When the whole
  computation completes with a policy market, the flag it returns is that of the sweep, its
  events are those of the sweep, and the trial curves are as the sweep left them.
\<close>

theorem runTrials_continues_after_failure:
  "\<exists>c3 tr.
     runTrials F ops (storePrimaryRun F c s) s =
       Inr ((\<forall>t<mNumPoints c.
               trialFlag F ops (mGHGName c) (mNumPoints c) (getEmissionsPriceCurves F s (mGHGName c)) s t),
            c3,
            sweepState F ops (mGHGName c) (mNumPoints c) (getEmissionsPriceCurves F s (mGHGName c)) s (mNumPoints c),
            tr) \<and>
     filter isRun tr = map (\<lambda>t. Run RUN_ALL_PERIODS True (toString t)
            (trialFlag F ops (mGHGName c) (mNumPoints c) (getEmissionsPriceCurves F s (mGHGName c)) s t))
          [0..<mNumPoints c] \<and>
     (\<forall>t<mNumPoints c.
        mEmissionsQCurves c3 ! t = getEmissionsQuantityCurves F
           (sweepState F ops (mGHGName c) (mNumPoints c) (getEmissionsPriceCurves F s (mGHGName c)) s (Suc t))
           (mGHGName c) \<and>
        mEmissionsTCurves c3 ! t = getEmissionsPriceCurves F
           (sweepState F ops (mGHGName c) (mNumPoints c) (getEmissionsPriceCurves F s (mGHGName c)) s (Suc t))
           (mGHGName c)) \<and>
     (\<forall>success c' s' tr'.
        getPrice F s (mGHGName c) ''USA'' 1 \<noteq> NO_MARKET_PRICE F \<longrightarrow>
        calculateAbatementCostCurve F ops conf c s = Inr (success, c', s', tr') \<longrightarrow>
        success = (\<forall>t<mNumPoints c.
                     trialFlag F ops (mGHGName c) (mNumPoints c) (getEmissionsPriceCurves F s (mGHGName c)) s t) \<and>
        tr' = tr \<and>
        mEmissionsQCurves c' = mEmissionsQCurves c3 \<and>
        mEmissionsTCurves c' = mEmissionsTCurves c3)"
proof -
  let ?gas = "mGHGName c" and ?N = "mNumPoints c"
  let ?base = "getEmissionsPriceCurves F s (mGHGName c)"
  let ?c3 = "c\<lparr>mEmissionsQCurves := sweepQCurves F ops ?gas ?N s,
               mEmissionsTCurves := sweepTCurves F ops ?gas ?N s\<rparr>"
  let ?tr = "concat (map (trialEvents F ops ?gas ?N ?base s) [0..<?N])"
  have top: "success = (\<forall>t<?N. trialFlag F ops ?gas ?N ?base s t) \<and> tr' = ?tr \<and>
        mEmissionsQCurves c' = mEmissionsQCurves ?c3 \<and> mEmissionsTCurves c' = mEmissionsTCurves ?c3"
    if "getPrice F s ?gas ''USA'' 1 \<noteq> NO_MARKET_PRICE F"
      and "calculateAbatementCostCurve F ops conf c s = Inr (success, c', s', tr')"
    for success c' s' tr'
    using calculate_Inr [OF that(2) that(1)] calculate_fields [OF that(2) that(1)] by auto
  show ?thesis
  proof (rule exI [of _ ?c3], rule exI [of _ ?tr], intro conjI)
    show "runTrials F ops (storePrimaryRun F c s) s =
       Inr ((\<forall>t<?N. trialFlag F ops ?gas ?N ?base s t), ?c3, sweepState F ops ?gas ?N ?base s ?N, ?tr)"
      by (rule runTrials_storePrimaryRun)
    show "filter isRun ?tr = map (\<lambda>t. Run RUN_ALL_PERIODS True (toString t)
            (trialFlag F ops ?gas ?N ?base s t)) [0..<?N]"
      by (rule filter_isRun_trialEvents)
    show "\<forall>t<?N.
        mEmissionsQCurves ?c3 ! t = getEmissionsQuantityCurves F (sweepState F ops ?gas ?N ?base s (Suc t)) ?gas \<and>
        mEmissionsTCurves ?c3 ! t = getEmissionsPriceCurves F (sweepState F ops ?gas ?N ?base s (Suc t)) ?gas"
      by (simp add: sweepQCurves_nth sweepTCurves_nth)
    show "\<forall>success c' s' tr'.
        getPrice F s ?gas ''USA'' 1 \<noteq> NO_MARKET_PRICE F \<longrightarrow>
        calculateAbatementCostCurve F ops conf c s = Inr (success, c', s', tr') \<longrightarrow>
        success = (\<forall>t<?N. trialFlag F ops ?gas ?N ?base s t) \<and>
        tr' = ?tr \<and>
        mEmissionsQCurves c' = mEmissionsQCurves ?c3 \<and>
        mEmissionsTCurves c' = mEmissionsTCurves ?c3"
      using top by blast
  qed
qed

text \<open>
  In the small scenario with a run of tag 0 that fails: the flag is false, the trial 1 is
  run all the same, and the curves of the failed trial 0 are stored.
\<close>

theorem runTrials_continues_after_failure_witness:
  "runTrials (demoScenario [''0'']) demoOps
     (storePrimaryRun (demoScenario [''0'']) (TotalPolicyCostCalculator demoConf) demoState) demoState
     = Inr (False, demoSwept, demoEnd, demoTrace [''0'']) \<and>
   calculateAbatementCostCurve (demoScenario [''0'']) demoOps demoConf (TotalPolicyCostCalculator demoConf) demoState
     = Inr (False, demoDone, demoEnd, demoTrace [''0'']) \<and>
   getPrice (demoScenario [''0'']) demoState (mGHGName (TotalPolicyCostCalculator demoConf)) ''USA'' 1
     \<noteq> NO_MARKET_PRICE (demoScenario [''0'']) \<and>
   filter isRun (demoTrace [''0'']) = [Run RUN_ALL_PERIODS True ''0'' False, Run RUN_ALL_PERIODS True ''1'' True] \<and>
   False = (\<forall>t<mNumPoints (TotalPolicyCostCalculator demoConf).
            trialFlag (demoScenario [''0'']) demoOps (mGHGName (TotalPolicyCostCalculator demoConf))
              (mNumPoints (TotalPolicyCostCalculator demoConf))
              (getEmissionsPriceCurves (demoScenario [''0'']) demoState (mGHGName (TotalPolicyCostCalculator demoConf)))
              demoState t) \<and>
   filter isRun (demoTrace [''0'']) = map (\<lambda>t. Run RUN_ALL_PERIODS True (toString t)
            (trialFlag (demoScenario [''0'']) demoOps (mGHGName (TotalPolicyCostCalculator demoConf))
              (mNumPoints (TotalPolicyCostCalculator demoConf))
              (getEmissionsPriceCurves (demoScenario [''0'']) demoState (mGHGName (TotalPolicyCostCalculator demoConf)))
              demoState t))
          [0..<mNumPoints (TotalPolicyCostCalculator demoConf)] \<and>
   mEmissionsQCurves demoSwept ! 0 = getEmissionsQuantityCurves (demoScenario [''0''])
       (sweepState (demoScenario [''0'']) demoOps (mGHGName (TotalPolicyCostCalculator demoConf))
          (mNumPoints (TotalPolicyCostCalculator demoConf))
          (getEmissionsPriceCurves (demoScenario [''0'']) demoState (mGHGName (TotalPolicyCostCalculator demoConf)))
          demoState (Suc 0))
       (mGHGName (TotalPolicyCostCalculator demoConf)) \<and>
   mEmissionsQCurves demoSwept ! 0
     = [(''EU'', demoCurve [100, 100]), (''USA'', demoCurve [100, 100]), (''global'', demoCurve [100, 100])] \<and>
   mEmissionsQCurves demoDone = mEmissionsQCurves demoSwept \<and>
   mEmissionsTCurves demoDone = mEmissionsTCurves demoSwept"
  (is "?run \<and> ?calc \<and> ?market \<and> ?runs \<and> False = ?all \<and> filter isRun (demoTrace [''0'']) = ?map \<and> ?q0 \<and> ?q0v \<and> ?qs \<and> ?ts")
proof -
  have run: ?run using demo_runTrials [of "[''0'']"] by simp
  have calc: ?calc using demo_calculate [of "[''0'']"] by simp
  have market: ?market by (simp add: demoScenario_def demoState_def)
  have n: "0 < mNumPoints (TotalPolicyCostCalculator demoConf)" by (simp add: demo_new)
  have runs: ?runs by (simp add: demoTrace_def)
  have q0v: ?q0v by (simp add: demoSwept_def demoQ_def)
  from runTrials_continues_after_failure [of "demoScenario [''0'']" demoOps "TotalPolicyCostCalculator demoConf" demoState demoConf]
  obtain c3 tr where
    a: "runTrials (demoScenario [''0'']) demoOps
          (storePrimaryRun (demoScenario [''0'']) (TotalPolicyCostCalculator demoConf) demoState) demoState
        = Inr (?all, c3,
            sweepState (demoScenario [''0'']) demoOps (mGHGName (TotalPolicyCostCalculator demoConf))
              (mNumPoints (TotalPolicyCostCalculator demoConf))
              (getEmissionsPriceCurves (demoScenario [''0'']) demoState (mGHGName (TotalPolicyCostCalculator demoConf)))
              demoState (mNumPoints (TotalPolicyCostCalculator demoConf)),
            tr)"
    and f: "filter isRun tr = ?map"
    and st: "\<forall>t<mNumPoints (TotalPolicyCostCalculator demoConf).
        mEmissionsQCurves c3 ! t = getEmissionsQuantityCurves (demoScenario [''0''])
           (sweepState (demoScenario [''0'']) demoOps (mGHGName (TotalPolicyCostCalculator demoConf))
              (mNumPoints (TotalPolicyCostCalculator demoConf))
              (getEmissionsPriceCurves (demoScenario [''0'']) demoState (mGHGName (TotalPolicyCostCalculator demoConf)))
              demoState (Suc t))
           (mGHGName (TotalPolicyCostCalculator demoConf)) \<and>
        mEmissionsTCurves c3 ! t = getEmissionsPriceCurves (demoScenario [''0''])
           (sweepState (demoScenario [''0'']) demoOps (mGHGName (TotalPolicyCostCalculator demoConf))
              (mNumPoints (TotalPolicyCostCalculator demoConf))
              (getEmissionsPriceCurves (demoScenario [''0'']) demoState (mGHGName (TotalPolicyCostCalculator demoConf)))
              demoState (Suc t))
           (mGHGName (TotalPolicyCostCalculator demoConf))"
    and top: "\<forall>success c' s' tr'.
        getPrice (demoScenario [''0'']) demoState (mGHGName (TotalPolicyCostCalculator demoConf)) ''USA'' 1
          \<noteq> NO_MARKET_PRICE (demoScenario [''0'']) \<longrightarrow>
        calculateAbatementCostCurve (demoScenario [''0'']) demoOps demoConf (TotalPolicyCostCalculator demoConf) demoState
          = Inr (success, c', s', tr') \<longrightarrow>
        success = ?all \<and> tr' = tr \<and>
        mEmissionsQCurves c' = mEmissionsQCurves c3 \<and>
        mEmissionsTCurves c' = mEmissionsTCurves c3"
    by (elim exE conjE) (rule that; assumption)
  from a [unfolded run] have e: "False = ?all \<and> demoSwept = c3"
    by (simp only: sum.inject prod.inject)
  from e have c3: "c3 = demoSwept" by (elim conjE) (rule sym)
  from e have all: "False = ?all" by (elim conjE)
  from top market calc have t: "demoTrace [''0''] = tr \<and>
      mEmissionsQCurves demoDone = mEmissionsQCurves c3 \<and> mEmissionsTCurves demoDone = mEmissionsTCurves c3"
    by blast
  from t f have m: "filter isRun (demoTrace [''0'']) = ?map" by (elim conjE) (simp only:)
  from st n have q0: ?q0 unfolding c3 by blast
  from t have qs: ?qs unfolding c3 by (elim conjE)
  from t have ts: ?ts unfolding c3 by (elim conjE)
  from run calc market runs all m q0 q0v qs ts show ?thesis by (intro conjI)
qed

subsection \<open>The regional costs\<close>



subsection \<open>The global costs\<close>



subsection \<open>A second invocation\<close>




subsection \<open>The flag of completion\<close>

text \<open>
  C8. When the computation completes with a policy market, \<open>mRanCosts\<close> is true whatever
  the flag returned is, and \<open>printOutput\<close> writes: the XML file first.
\<close>

theorem calculateAbatementCostCurve_ran:
  assumes "calculateAbatementCostCurve F ops conf c s = Inr (success, c', s', tr)"
      and "getPrice F s (mGHGName c) ''USA'' 1 \<noteq> NO_MARKET_PRICE F"
  shows "mRanCosts c' \<and> printOutput xmlString useXMLDB c' \<noteq> [] \<and>
         hd (printOutput xmlString useXMLDB c') = XMLFile (xmlString c')"
  using calculate_fields [OF assms] by (simp add: printOutput_def)

text \<open>
  In the small scenario with a run of tag 1 that fails the flag returned is false, and
  \<open>printOutput\<close> writes.
\<close>

theorem calculateAbatementCostCurve_ran_witness:
  "calculateAbatementCostCurve (demoScenario [''1'']) demoOps demoConf (TotalPolicyCostCalculator demoConf) demoState
     = Inr (False, demoDone, demoEnd, demoTrace [''1'']) \<and>
   getPrice (demoScenario [''1'']) demoState (mGHGName (TotalPolicyCostCalculator demoConf)) ''USA'' 1
     \<noteq> NO_MARKET_PRICE (demoScenario [''1'']) \<and>
   mRanCosts demoDone \<and>
   printOutput (\<lambda>c. ''<CostCurvesInfo/>'') False demoDone \<noteq> [] \<and>
   hd (printOutput (\<lambda>c. ''<CostCurvesInfo/>'') False demoDone) = XMLFile ''<CostCurvesInfo/>''"
proof -
  have h1: "calculateAbatementCostCurve (demoScenario [''1'']) demoOps demoConf (TotalPolicyCostCalculator demoConf) demoState
     = Inr (False, demoDone, demoEnd, demoTrace [''1''])"
    using demo_calculate [of "[''1'']"] by simp
  have h2: "getPrice (demoScenario [''1'']) demoState (mGHGName (TotalPolicyCostCalculator demoConf)) ''USA'' 1
     \<noteq> NO_MARKET_PRICE (demoScenario [''1''])"
    by (simp add: demoScenario_def demoState_def)
  from h1 h2 calculateAbatementCostCurve_ran [OF h1 h2, of "\<lambda>c. ''<CostCurvesInfo/>''" False]
  show ?thesis by simp
qed

subsection \<open>The test for a policy market\<close>

text \<open>
  C9. The computation is skipped (it returns true, with the calculator and the scenario
  unchanged and the one line of the log) exactly when the price of the gas in the region USA
  at period 1 is the price of no market, for every scenario: no other price is read.
\<close>

theorem calculateAbatementCostCurve_skips_iff:
  "(calculateAbatementCostCurve F ops conf c s = Inr (True, c, s, [Log skipMessage]))
     = (getPrice F s (mGHGName c) ''USA'' 1 = NO_MARKET_PRICE F)"
proof
  assume r: "calculateAbatementCostCurve F ops conf c s = Inr (True, c, s, [Log skipMessage])"
  show "getPrice F s (mGHGName c) ''USA'' 1 = NO_MARKET_PRICE F"
  proof (rule ccontr)
    assume "getPrice F s (mGHGName c) ''USA'' 1 \<noteq> NO_MARKET_PRICE F"
    from calculate_Inr [OF r this] have "[Log skipMessage] =
        concat (map (trialEvents F ops (mGHGName c) (mNumPoints c) (getEmissionsPriceCurves F s (mGHGName c)) s)
                  [0..<mNumPoints c])"
      by blast
    then show False
      using trialEvents_not_skip [of F ops "mGHGName c" "mNumPoints c" "getEmissionsPriceCurves F s (mGHGName c)"
          s "mNumPoints c" skipMessage]
      by simp
  qed
next
  assume "getPrice F s (mGHGName c) ''USA'' 1 = NO_MARKET_PRICE F"
  then show "calculateAbatementCostCurve F ops conf c s = Inr (True, c, s, [Log skipMessage])"
    by (simp add: calculateAbatementCostCurve_def)
qed

text \<open>
  A scenario with a tax in the region EU and no region USA is skipped; the small scenario
  is not.
\<close>

theorem calculateAbatementCostCurve_skips_iff_witness:
  "getPrice (demoScenario []) demoNoUSA ''CO2'' ''EU'' 1 \<noteq> NO_MARKET_PRICE (demoScenario []) \<and>
   getPrice (demoScenario []) demoNoUSA (mGHGName (TotalPolicyCostCalculator demoConf)) ''USA'' 1
     = NO_MARKET_PRICE (demoScenario []) \<and>
   calculateAbatementCostCurve (demoScenario []) demoOps demoConf (TotalPolicyCostCalculator demoConf) demoNoUSA
     = Inr (True, TotalPolicyCostCalculator demoConf, demoNoUSA, [Log skipMessage]) \<and>
   getPrice (demoScenario []) demoState (mGHGName (TotalPolicyCostCalculator demoConf)) ''USA'' 1
     \<noteq> NO_MARKET_PRICE (demoScenario []) \<and>
   calculateAbatementCostCurve (demoScenario []) demoOps demoConf (TotalPolicyCostCalculator demoConf) demoState
     \<noteq> Inr (True, TotalPolicyCostCalculator demoConf, demoState, [Log skipMessage])"
proof -
  have h1: "getPrice (demoScenario []) demoNoUSA (mGHGName (TotalPolicyCostCalculator demoConf)) ''USA'' 1
     = NO_MARKET_PRICE (demoScenario [])"
    by (simp add: demoScenario_def demoNoUSA_def)
  have h2: "getPrice (demoScenario []) demoState (mGHGName (TotalPolicyCostCalculator demoConf)) ''USA'' 1
     \<noteq> NO_MARKET_PRICE (demoScenario [])"
    by (simp add: demoScenario_def demoState_def)
  have h3: "getPrice (demoScenario []) demoNoUSA ''CO2'' ''EU'' 1 \<noteq> NO_MARKET_PRICE (demoScenario [])"
    by (simp add: demoScenario_def demoNoUSA_def)
  from h1 h2 h3
    calculateAbatementCostCurve_skips_iff [of "demoScenario []" demoOps demoConf "TotalPolicyCostCalculator demoConf" demoNoUSA]
    calculateAbatementCostCurve_skips_iff [of "demoScenario []" demoOps demoConf "TotalPolicyCostCalculator demoConf" demoState]
  show ?thesis by blast
qed

subsection \<open>The emissions driver\<close>

text \<open>
  C10: \<open>InputDriver::calcEmissionsDriver\<close> returns a value for every input vector,
  output vector and period: exactly 0 when the lookup of \<open>mInputName\<close> finds no input
  (the null result is tested, never dereferenced), and the physical demand of the input
  found, for the period, otherwise.
\<close>

theorem calcEmissionsDriver_total:
  "(getInput aInputs (mInputName d) = None \<longrightarrow>
      calcEmissionsDriver getInput d aInputs aOutputs aPeriod = 0) \<and>
   (\<forall>i. getInput aInputs (mInputName d) = Some i \<longrightarrow>
      calcEmissionsDriver getInput d aInputs aOutputs aPeriod = getPhysicalDemand i aPeriod)"
  by (simp add: calcEmissionsDriver_def)

theorem calcEmissionsDriver_total_witness:
  "firstInputNamed [\<lparr>getName = ''coal'', getPhysicalDemand = (\<lambda>p. 7)\<rparr>] ''gas'' = None \<and>
   calcEmissionsDriver firstInputNamed \<lparr>mInputName = ''gas''\<rparr>
     [\<lparr>getName = ''coal'', getPhysicalDemand = (\<lambda>p. 7)\<rparr>] ([] :: unit list) 2 = 0 \<and>
   firstInputNamed [\<lparr>getName = ''coal'', getPhysicalDemand = (\<lambda>p. 7)\<rparr>] ''coal''
     = Some \<lparr>getName = ''coal'', getPhysicalDemand = (\<lambda>p. 7)\<rparr> \<and>
   calcEmissionsDriver firstInputNamed \<lparr>mInputName = ''coal''\<rparr>
     [\<lparr>getName = ''coal'', getPhysicalDemand = (\<lambda>p. 7)\<rparr>] ([] :: unit list) 2 = 7"
  using calcEmissionsDriver_total [of firstInputNamed
      "[\<lparr>getName = ''coal'', getPhysicalDemand = (\<lambda>p. 7)\<rparr>]" "\<lparr>mInputName = ''gas''\<rparr>" "[] :: unit list" 2]
    calcEmissionsDriver_total [of firstInputNamed
      "[\<lparr>getName = ''coal'', getPhysicalDemand = (\<lambda>p. 7)\<rparr>]" "\<lparr>mInputName = ''coal''\<rparr>" "[] :: unit list" 2]
  by (simp add: firstInputNamed_def)

end
